theory Spec2Isabelle
  imports Complex_Main "HOL-Library.Char_ord" "HOL-Library.List_Lexorder"
begin

section \<open>Conventions of the embedding\<close>

text \<open>
  The ranker of \<^verbatim>\<open>rank_gene_signatures.py\<close> works on Python numbers (ints and floats read
  from the YAML configuration and from the evidence tables). They are modelled by exact
  rationals: rounding of binary floating point is outside this development. Python strings
  are \<^typ>\<open>string\<close>, Python lists are lists, and an exception raised by the source is a value
  \<open>Inl e\<close> of a sum type.
\<close>

datatype py_error = IndexError | ValueError | KeyError | AttributeError | ZeroDivision | NotANumber

text \<open>Python's \<^verbatim>\<open>max(xs)\<close>: raises \<^verbatim>\<open>ValueError\<close> on an empty sequence.\<close>

fun py_max :: "rat list \<Rightarrow> py_error + rat" where
  "py_max [] = Inl ValueError"
| "py_max (x # xs) = Inr (fold max xs x)"

fun py_min :: "rat list \<Rightarrow> py_error + rat" where
  "py_min [] = Inl ValueError"
| "py_min (x # xs) = Inr (fold min xs x)"

text \<open>Python's \<^verbatim>\<open>sorted(xs, reverse=True)\<close> on numbers.\<close>

definition sorted_desc :: "rat list \<Rightarrow> rat list" where
  "sorted_desc xs = rev (sort xs)"

section \<open>Strings\<close>

text \<open>\<^verbatim>\<open>s.startswith(p)\<close> and \<^verbatim>\<open>s.endswith(p)\<close>.\<close>

definition starts_with :: "string \<Rightarrow> string \<Rightarrow> bool" where
  "starts_with s p = (take (length p) s = p)"

definition ends_with :: "string \<Rightarrow> string \<Rightarrow> bool" where
  "ends_with s p = (length p \<le> length s \<and> drop (length s - length p) s = p)"

text \<open>
  \<^verbatim>\<open>s.replace(old, new)\<close>: every non-overlapping occurrence of \<open>old\<close>, scanning from the
  left. For an empty \<open>old\<close> Python puts \<open>new\<close> before every character and at the end.
\<close>

function str_replace :: "string \<Rightarrow> string \<Rightarrow> string \<Rightarrow> string" where
  "str_replace [] new s = new @ concat (map (\<lambda>c. c # new) s)"
| "str_replace (a # old) new [] = []"
| "str_replace (a # old) new (c # cs) =
     (if starts_with (c # cs) (a # old) then new @ str_replace (a # old) new (drop (length old) cs)
      else c # str_replace (a # old) new cs)"
  by pat_completeness auto
termination
  by (relation "measure (\<lambda>(old, new, s). length s)") auto

text \<open>
  \<^verbatim>\<open>s.split()\<close>: maximal runs of non-whitespace characters. The whitespace characters are
  the ASCII ones Python recognises (codes 9 to 13, 28 to 32).
\<close>

definition is_space :: "char \<Rightarrow> bool" where
  "is_space c = (let n = (of_char c :: nat) in (9 \<le> n \<and> n \<le> 13) \<or> (28 \<le> n \<and> n \<le> 32))"

fun split_ws_aux :: "string \<Rightarrow> string \<Rightarrow> string list" where
  "split_ws_aux cur [] = (if cur = [] then [] else [cur])"
| "split_ws_aux cur (c # cs) =
     (if is_space c then (if cur = [] then split_ws_aux [] cs else cur # split_ws_aux [] cs)
      else split_ws_aux (cur @ [c]) cs)"

definition py_split :: "string \<Rightarrow> string list" where
  "py_split s = split_ws_aux [] s"

text \<open>\<^verbatim>\<open>s.split(sep)\<close> for a non-empty separator (the source only splits on \<^verbatim>\<open>">="\<close>).\<close>

function split_on_aux :: "string \<Rightarrow> string \<Rightarrow> string \<Rightarrow> string list" where
  "split_on_aux sep cur [] = [cur]"
| "split_on_aux sep cur (c # cs) =
     (if sep \<noteq> [] \<and> starts_with (c # cs) sep
      then cur # split_on_aux sep [] (drop (length sep - 1) cs)
      else split_on_aux sep (cur @ [c]) cs)"
  by pat_completeness auto
termination
  by (relation "measure (\<lambda>(sep, cur, s). length s)") auto

definition split_on :: "string \<Rightarrow> string \<Rightarrow> string list" where
  "split_on sep s = split_on_aux sep [] s"

text \<open>\<^verbatim>\<open>sep.join(xs)\<close>.\<close>

fun str_join :: "string \<Rightarrow> string list \<Rightarrow> string" where
  "str_join sep [] = []"
| "str_join sep [x] = x"
| "str_join sep (x # y # ys) = x @ sep @ str_join sep (y # ys)"

text \<open>
  \<^verbatim>\<open>sorted(set(xs))\<close> on strings: Python orders strings lexicographically by code point,
  which is the order of \<^typ>\<open>char list\<close> here.
\<close>

definition sorted_set :: "string list \<Rightarrow> string list" where
  "sorted_set xs = sort (remdups xs)"

text \<open>ASCII lower-casing, and the case-insensitive search of an escaped keyword in a text.\<close>

definition lower_char :: "char \<Rightarrow> char" where
  "lower_char c = (let n = (of_char c :: nat) in if 65 \<le> n \<and> n \<le> 90 then char_of (n + 32) else c)"

definition str_lower :: "string \<Rightarrow> string" where
  "str_lower s = map lower_char s"

fun contains_at_some :: "string \<Rightarrow> string \<Rightarrow> bool" where
  "contains_at_some [] p = (p = [])"
| "contains_at_some (c # cs) p = (starts_with (c # cs) p \<or> contains_at_some cs p)"

definition search_ignorecase :: "string \<Rightarrow> string \<Rightarrow> bool" where
  "search_ignorecase kw text = contains_at_some (str_lower text) (str_lower kw)"

section \<open>Regular expressions of fixed shape\<close>

text \<open>
  The identifier patterns of the source are compiled regular expressions. A function that
  takes a regular expression from the configuration takes its search function as a
  parameter here: \<open>string \<Rightarrow> string option\<close>, the text matched by the leftmost match
  (or by its first group), \<open>None\<close> when there is no match. The two default patterns of
  \<^verbatim>\<open>_parse_orthology_file\<close> are sequences of single-character atoms; for those the search
  is written out.
\<close>

datatype atom = Lit char | Digit | OneOf string

definition is_digit :: "char \<Rightarrow> bool" where
  "is_digit c = (let n = (of_char c :: nat) in 48 \<le> n \<and> n \<le> 57)"

fun atom_ok :: "atom \<Rightarrow> char \<Rightarrow> bool" where
  "atom_ok (Lit d) c = (c = d)"
| "atom_ok Digit c = is_digit c"
| "atom_ok (OneOf ds) c = (c \<in> set ds)"

fun match_here :: "atom list \<Rightarrow> string \<Rightarrow> bool" where
  "match_here [] s = True"
| "match_here (a # as) [] = False"
| "match_here (a # as) (c # cs) = (atom_ok a c \<and> match_here as cs)"

fun re_search :: "atom list \<Rightarrow> string \<Rightarrow> string option" where
  "re_search p [] = (if p = [] then Some [] else None)"
| "re_search p (c # cs) =
     (if match_here p (c # cs) then Some (take (length p) (c # cs)) else re_search p cs)"

text \<open>\<^verbatim>\<open>r"BdiBd21-3\.\dG\d{7}"\<close> and \<^verbatim>\<open>r"AT[1-5MC]G\d{5}"\<close>.\<close>

definition brachy_default :: "atom list" where
  "brachy_default = map Lit ''BdiBd21-3.'' @
     [Digit, Lit (CHR ''G''), Digit, Digit, Digit, Digit, Digit, Digit, Digit]"

definition arab_default :: "atom list" where
  "arab_default = [Lit (CHR ''A''), Lit (CHR ''T''), OneOf ''12345MC'', Lit (CHR ''G''),
     Digit, Digit, Digit, Digit, Digit]"

section \<open>Identifier mapping\<close>

text \<open>
  The GO table (\<^verbatim>\<open>_extract_base_genes\<close>): the first group of
  \<^verbatim>\<open>protein_to_core_regex\<close>, then the configured suffix; a row without a match is dropped.
\<close>

definition go_gene_id :: "(string \<Rightarrow> string option) \<Rightarrow> string \<Rightarrow> string \<Rightarrow> string option" where
  "go_gene_id core_extract suffix raw_id =
     (case core_extract raw_id of None \<Rightarrow> None | Some core \<Rightarrow> Some (core @ suffix))"


text \<open>The domain table (\<^verbatim>\<open>extract_gene_id\<close> of \<^verbatim>\<open>pgsb/domains/parser.py\<close>).\<close>

definition extract_gene_id :: "string \<Rightarrow> string" where
  "extract_gene_id protein_id =
     (let base = str_replace ''.p'' [] (str_replace ''.1.p'' [] protein_id)
      in if \<not> ends_with base ''.v1.2'' then base @ ''.v1.2'' else base)"

section \<open>Orthology classification\<close>

datatype orth_class = Class_none | Low_confidence | One_to_one | One_to_many

text \<open>
  \<^verbatim>\<open>_classify_orthology(self, n_hits, scores)\<close>. The two thresholds are the literals
  \<^verbatim>\<open>0.8\<close> and \<^verbatim>\<open>0.2\<close> of the source; \<^verbatim>\<open>sorted_scores[1]\<close> raises \<^verbatim>\<open>IndexError\<close> when
  the caller passes \<^verbatim>\<open>n_hits > 1\<close> with a single score.
\<close>

definition classify_orthology :: "nat \<Rightarrow> rat list \<Rightarrow> py_error + orth_class" where
  "classify_orthology n_hits scores =
     (case py_max scores of
        Inl e \<Rightarrow> Inr Class_none
      | Inr best_score \<Rightarrow>
          if best_score < 8 / 10 then Inr Low_confidence
          else if n_hits = 1 then Inr One_to_one
          else if n_hits > 1 then
            (let sorted_scores = sorted_desc scores in
             if length sorted_scores < 2 then Inl IndexError
             else if sorted_scores ! 0 - sorted_scores ! 1 \<ge> 2 / 10 then Inr One_to_one
             else Inr One_to_many)
          else Inr One_to_many)"


section \<open>Configuration, evidence and scores\<close>

text \<open>
  Library functions the source calls on text, and the two compiled patterns of the orthology
  block: \<^verbatim>\<open>int(s)\<close> and \<^verbatim>\<open>float(s)\<close> (\<open>None\<close> where Python raises \<^verbatim>\<open>ValueError\<close>), the
  formatting \<^verbatim>\<open>f"{evalue:.1e}"\<close>, and \<^verbatim>\<open>pattern.search(s).group()\<close> for
  \<^verbatim>\<open>brachy_id_regex_extract\<close> and \<^verbatim>\<open>arabidopsis_id_regex_extract\<close>.
\<close>

record externals =
  py_int :: "string \<Rightarrow> int option"
  py_float :: "string \<Rightarrow> rat option"
  fmt_evalue :: "rat \<Rightarrow> string"
  brachy_search :: "string \<Rightarrow> string option"
  arab_search :: "string \<Rightarrow> string option"

text \<open>
  A Python dict is an association list in insertion order (its keys are distinct in Python).
  A category of \<^verbatim>\<open>scoring.weights.go\<close> is either a dict from GO id to weight or some other
  YAML value (the source tests \<^verbatim>\<open>isinstance(term_weights, dict)\<close>).
\<close>

datatype cat_val = Term_weights "(string \<times> rat) list" | Not_a_dict

record caps =
  go_max :: rat
  domain_max :: rat
  orthology_max :: rat
  tair_max :: rat
  po_max :: rat
  synergy_max :: "rat option"

text \<open>A synergy rule; a key read with \<^verbatim>\<open>rule.get(key, default)\<close> is an option.\<close>

record synergy_rule =
  rule_name :: "string option"
  if_all :: "string list option"
  bonus :: "rat option"

record config =
  go_weights :: "(string \<times> cat_val) list"
  score_caps :: caps
  domain_match_hit :: "rat option"
  expected_domains :: "(string \<times> string list) list"
  best_hit_multiplier :: rat
  one_to_one_bonus :: rat
  min_best_score_for_points :: "rat option"
  tair_keywords_hit :: "rat option"
  keyword_list :: "string list"
  po_keywords_hit :: "rat option"
  synergy_rules :: "synergy_rule list"
  seurat_suffix :: string
  go_level_filter :: "string option"

text \<open>\<^verbatim>\<open>d.get(key, default)\<close> on an optional value.\<close>

definition get_or :: "'a option \<Rightarrow> 'a \<Rightarrow> 'a" where
  "get_or v d = (case v of None \<Rightarrow> d | Some x \<Rightarrow> x)"

record gene_evidence =
  go_terms :: "string list"
  go_categories :: "string list"
  matched_domains :: "string list"
  arabidopsis_orthologs :: "string list"
  best_ortholog :: "string option"
  best_ortholog_score :: rat
  orthology_class :: orth_class
  at_symbol :: string
  at_annotation :: string
  tair_keyword_hits :: "string list"
  po_terms :: "string list"
  po_context_hits :: "string list"

text \<open>
  An assignment \<^verbatim>\<open>self.gene_evidence[gene][field] = value\<close>. A scorer is modelled by the
  list of the assignments it executes for a gene, in the order of the source, applied to the
  gene's evidence record.
\<close>

datatype ev_field =
    F_go_terms | F_go_categories | F_matched_domains | F_arabidopsis_orthologs
  | F_best_ortholog | F_best_ortholog_score | F_orthology_class | F_at_symbol
  | F_at_annotation | F_tair_keyword_hits | F_po_terms | F_po_context_hits

datatype ev_write =
    Set_go_terms "string list"
  | Set_go_categories "string list"
  | Set_matched_domains "string list"
  | Set_arabidopsis_orthologs "string list"
  | Set_best_ortholog "string option"
  | Set_best_ortholog_score rat
  | Set_orthology_class orth_class
  | Set_at_symbol string
  | Set_at_annotation string
  | Set_tair_keyword_hits "string list"
  | Set_po_terms "string list"
  | Set_po_context_hits "string list"

fun field_of :: "ev_write \<Rightarrow> ev_field" where
  "field_of (Set_go_terms v) = F_go_terms"
| "field_of (Set_go_categories v) = F_go_categories"
| "field_of (Set_matched_domains v) = F_matched_domains"
| "field_of (Set_arabidopsis_orthologs v) = F_arabidopsis_orthologs"
| "field_of (Set_best_ortholog v) = F_best_ortholog"
| "field_of (Set_best_ortholog_score v) = F_best_ortholog_score"
| "field_of (Set_orthology_class v) = F_orthology_class"
| "field_of (Set_at_symbol v) = F_at_symbol"
| "field_of (Set_at_annotation v) = F_at_annotation"
| "field_of (Set_tair_keyword_hits v) = F_tair_keyword_hits"
| "field_of (Set_po_terms v) = F_po_terms"
| "field_of (Set_po_context_hits v) = F_po_context_hits"

fun apply_write :: "gene_evidence \<Rightarrow> ev_write \<Rightarrow> gene_evidence" where
  "apply_write e (Set_go_terms v) = e\<lparr>go_terms := v\<rparr>"
| "apply_write e (Set_go_categories v) = e\<lparr>go_categories := v\<rparr>"
| "apply_write e (Set_matched_domains v) = e\<lparr>matched_domains := v\<rparr>"
| "apply_write e (Set_arabidopsis_orthologs v) = e\<lparr>arabidopsis_orthologs := v\<rparr>"
| "apply_write e (Set_best_ortholog v) = e\<lparr>best_ortholog := v\<rparr>"
| "apply_write e (Set_best_ortholog_score v) = e\<lparr>best_ortholog_score := v\<rparr>"
| "apply_write e (Set_orthology_class v) = e\<lparr>orthology_class := v\<rparr>"
| "apply_write e (Set_at_symbol v) = e\<lparr>at_symbol := v\<rparr>"
| "apply_write e (Set_at_annotation v) = e\<lparr>at_annotation := v\<rparr>"
| "apply_write e (Set_tair_keyword_hits v) = e\<lparr>tair_keyword_hits := v\<rparr>"
| "apply_write e (Set_po_terms v) = e\<lparr>po_terms := v\<rparr>"
| "apply_write e (Set_po_context_hits v) = e\<lparr>po_context_hits := v\<rparr>"

definition apply_writes :: "gene_evidence \<Rightarrow> ev_write list \<Rightarrow> gene_evidence" where
  "apply_writes e ws = foldl apply_write e ws"



text \<open>
  The six evidence layers, and the per-gene entries of \<^verbatim>\<open>gene_scores_raw\<close>,
  \<^verbatim>\<open>gene_scores_capped\<close> (whose \<^verbatim>\<open>'total'\<close> key is the field \<open>total\<close>),
  \<^verbatim>\<open>gene_evidence\<close> and \<^verbatim>\<open>synergy_bonuses\<close>.
\<close>

datatype layer = L_go | L_domain | L_orthology | L_tair | L_po | L_synergy

record gene_state =
  raw :: "layer \<Rightarrow> rat"
  capped :: "layer \<Rightarrow> rat"
  total :: rat
  evidence :: gene_evidence
  synergy_bonuses :: "string list"

text \<open>The initialisation loop of \<^verbatim>\<open>run\<close>.\<close>

definition init_evidence :: gene_evidence where
  "init_evidence = \<lparr>go_terms = [], go_categories = [], matched_domains = [],
     arabidopsis_orthologs = [], best_ortholog = None, best_ortholog_score = 0,
     orthology_class = Class_none, at_symbol = [], at_annotation = [],
     tair_keyword_hits = [], po_terms = [], po_context_hits = []\<rparr>"

definition init_state :: gene_state where
  "init_state = \<lparr>raw = (\<lambda>l. 0), capped = (\<lambda>l. 0), total = 0,
     evidence = init_evidence, synergy_bonuses = []\<rparr>"

text \<open>The cap of a layer, as each scorer reads it.\<close>

fun cap_of :: "config \<Rightarrow> layer \<Rightarrow> rat" where
  "cap_of cfg L_go = go_max (score_caps cfg)"
| "cap_of cfg L_domain = domain_max (score_caps cfg)"
| "cap_of cfg L_orthology = orthology_max (score_caps cfg)"
| "cap_of cfg L_tair = tair_max (score_caps cfg)"
| "cap_of cfg L_po = po_max (score_caps cfg)"
| "cap_of cfg L_synergy = get_or (synergy_max (score_caps cfg)) 6"

text \<open>
  The two score assignments every scorer ends with:
  \<^verbatim>\<open>gene_scores_raw[gene][l] = raw_score\<close> and
  \<^verbatim>\<open>gene_scores_capped[gene][l] = min(raw_score, cap)\<close>.
\<close>

definition set_scores :: "config \<Rightarrow> layer \<Rightarrow> rat \<Rightarrow> gene_state \<Rightarrow> gene_state" where
  "set_scores cfg l raw_score st =
     st\<lparr>raw := (raw st)(l := raw_score), capped := (capped st)(l := min raw_score (cap_of cfg l))\<rparr>"

definition write_evidence :: "ev_write list \<Rightarrow> gene_state \<Rightarrow> gene_state" where
  "write_evidence ws st = st\<lparr>evidence := apply_writes (evidence st) ws\<rparr>"

section \<open>Base genes and the GO scorer\<close>

text \<open>
  \<^verbatim>\<open>_extract_base_genes\<close>: a row of the GO table holds the columns \<^verbatim>\<open>gene\<close>, \<^verbatim>\<open>GO\<close> and
  \<^verbatim>\<open>level\<close>. Rows whose identifier does not map are dropped, then rows whose GO id is no
  key of a category dict, then (unless the filter is empty or \<^verbatim>\<open>ALL\<close>) rows of another
  level. The result is the filtered table, as pairs of canonical gene id and GO id, and the
  sorted list of its distinct genes.
\<close>

record go_row =
  row_gene :: string
  row_GO :: string
  row_level :: string

definition upper_char :: "char \<Rightarrow> char" where
  "upper_char c = (let n = (of_char c :: nat) in if 97 \<le> n \<and> n \<le> 122 then char_of (n - 32) else c)"

definition str_upper :: "string \<Rightarrow> string" where
  "str_upper s = map upper_char s"

definition cat_keys :: "cat_val \<Rightarrow> string list" where
  "cat_keys v = (case v of Term_weights d \<Rightarrow> map fst d | Not_a_dict \<Rightarrow> [])"

definition target_go_terms :: "(string \<times> cat_val) list \<Rightarrow> string list" where
  "target_go_terms weights = concat (map (\<lambda>(category, terms). cat_keys terms) weights)"

definition go_annotations :: "(string \<Rightarrow> string option) \<Rightarrow> config \<Rightarrow> go_row list \<Rightarrow> (string \<times> string) list" where
  "go_annotations core_extract cfg go_df =
     (let go_level = get_or (go_level_filter cfg) ''BP'' in
      concat (map (\<lambda>row.
        case go_gene_id core_extract (seurat_suffix cfg) (row_gene row) of
          None \<Rightarrow> []
        | Some seurat_gene \<Rightarrow>
            if row_GO row \<in> set (target_go_terms (go_weights cfg))
               \<and> (go_level \<noteq> [] \<and> str_upper go_level \<noteq> ''ALL'' \<longrightarrow> row_level row = str_upper go_level)
            then [(seurat_gene, row_GO row)] else []) go_df))"

definition extract_base_genes :: "(string \<Rightarrow> string option) \<Rightarrow> config \<Rightarrow> go_row list \<Rightarrow> string list" where
  "extract_base_genes core_extract cfg go_df = sorted_set (map fst (go_annotations core_extract cfg go_df))"

text \<open>The rows of the filtered table of one gene, by their GO id, in table order.\<close>

definition annots_of :: "(string \<times> string) list \<Rightarrow> string \<Rightarrow> string list" where
  "annots_of filtered gene = map snd (filter (\<lambda>(g, go_id). g = gene) filtered)"

text \<open>
  \<^verbatim>\<open>_score_go_evidence\<close>, the body of the loop over genes. The accumulator holds
  \<^verbatim>\<open>raw_score\<close>, \<^verbatim>\<open>go_terms\<close> and \<^verbatim>\<open>categories\<close>; the outer loop runs over the rows of the
  gene, the inner one over the categories of the configuration.
\<close>

type_synonym go_acc = "rat \<times> string list \<times> string list"

fun go_category_step :: "string \<Rightarrow> go_acc \<Rightarrow> string \<times> cat_val \<Rightarrow> go_acc" where
  "go_category_step go_id (raw_score, terms, categories) (category, Term_weights term_weights) =
     (case map_of term_weights go_id of
        None \<Rightarrow> (raw_score, terms, categories)
      | Some w \<Rightarrow> (raw_score + w, terms @ [go_id],
                   if category \<notin> set categories then categories @ [category] else categories))"
| "go_category_step go_id acc (category, Not_a_dict) = acc"

definition go_row_step :: "(string \<times> cat_val) list \<Rightarrow> go_acc \<Rightarrow> string \<Rightarrow> go_acc" where
  "go_row_step weights acc go_id = foldl (go_category_step go_id) acc weights"

definition go_scan :: "(string \<times> cat_val) list \<Rightarrow> string list \<Rightarrow> go_acc" where
  "go_scan weights annots = foldl (go_row_step weights) (0, [], []) annots"

definition go_writes :: "string list \<Rightarrow> string list \<Rightarrow> ev_write list" where
  "go_writes terms categories = [Set_go_terms (sorted_set terms), Set_go_categories categories]"

definition score_go_evidence :: "config \<Rightarrow> string list \<Rightarrow> gene_state \<Rightarrow> gene_state" where
  "score_go_evidence cfg annots st =
     (case go_scan (go_weights cfg) annots of
        (raw_score, terms, categories) \<Rightarrow>
          write_evidence (go_writes terms categories) (set_scores cfg L_go raw_score st))"

section \<open>The domain scorer\<close>

record domain_hit =
  pfam_id :: string
  pfam_name :: string
  evalue :: rat

text \<open>
  \<^verbatim>\<open>_categorize_genes\<close> for one gene. Building \<^verbatim>\<open>category_terms\<close> calls \<^verbatim>\<open>.keys()\<close> on
  every category, which raises \<^verbatim>\<open>AttributeError\<close> on a value that is no dict.
\<close>

definition categorize_gene :: "(string \<times> cat_val) list \<Rightarrow> gene_evidence \<Rightarrow> py_error + string" where
  "categorize_gene go_w ev =
     (if list_ex (\<lambda>(category_name, terms_dict). terms_dict = Not_a_dict) go_w then Inl AttributeError
      else
        let gene_categories =
              map fst (filter (\<lambda>(cat_name, cat_terms).
                         list_ex (\<lambda>t. t \<in> set (cat_keys cat_terms)) (go_terms ev)) go_w)
        in Inr (if length gene_categories = 0 then ''unknown''
                else if length gene_categories = 1 then gene_categories ! 0
                else str_join ''-'' (sort gene_categories)))"

definition expected_for :: "(string \<times> string list) list \<Rightarrow> string \<Rightarrow> string list" where
  "expected_for expected_domains_config category =
     (let pcd = get_or (map_of expected_domains_config ''PCD'') [];
          ros = get_or (map_of expected_domains_config ''ROS'') []
      in if category = ''PCD'' then pcd
         else if category = ''ROS'' then ros
         else remdups (pcd @ ros))"

definition domain_matches :: "externals \<Rightarrow> string list \<Rightarrow> domain_hit list \<Rightarrow> string list" where
  "domain_matches ext expected domains =
     map (\<lambda>d. pfam_id d @ ''('' @ pfam_name d @ '',E='' @ fmt_evalue ext (evalue d) @ '')'')
         (filter (\<lambda>d. pfam_id d \<in> set expected) domains)"

text \<open>
  What the layer has to work with: it is switched off or returns before categorising (a
  missing path), the scan fails after categorising, or there is a parsed domain table.
\<close>

datatype domain_input =
    Domain_skipped
  | Domain_scan_failed
  | Domain_table "(string \<times> domain_hit list) list"

definition domain_writes :: "string list \<Rightarrow> ev_write list" where
  "domain_writes matched = [Set_matched_domains (sort matched)]"

definition score_domain_evidence ::
    "externals \<Rightarrow> config \<Rightarrow> domain_input \<Rightarrow> string \<Rightarrow> gene_state \<Rightarrow> py_error + gene_state" where
  "score_domain_evidence ext cfg dom_in gene st =
     (case dom_in of
        Domain_skipped \<Rightarrow> Inr st
      | Domain_scan_failed \<Rightarrow>
          (case categorize_gene (go_weights cfg) (evidence st) of Inl e \<Rightarrow> Inl e | Inr category \<Rightarrow> Inr st)
      | Domain_table gene_domains \<Rightarrow>
          (case categorize_gene (go_weights cfg) (evidence st) of
             Inl e \<Rightarrow> Inl e
           | Inr category \<Rightarrow>
               let matched = (case map_of gene_domains gene of
                                None \<Rightarrow> []
                              | Some domains \<Rightarrow>
                                  domain_matches ext (expected_for (expected_domains cfg) category) domains);
                   n_unique_domains = length (remdups (map (takeWhile (\<lambda>c. c \<noteq> CHR ''('')) matched));
                   raw_score = of_nat n_unique_domains * get_or (domain_match_hit cfg) 2
               in Inr (write_evidence (domain_writes matched) (set_scores cfg L_domain raw_score st))))"

section \<open>The orthology parser and scorer\<close>

record ortho_info =
  arabidopsis_hits :: "string list"
  best_score :: rat
  classification :: orth_class

text \<open>
  The loop over the tokens of \<^verbatim>\<open>OrtoB\<close>: a token in which the target pattern matches is
  recorded with the number read from the token after it (\<^verbatim>\<open>0.0\<close> at the end of the
  row); \<^verbatim>\<open>float\<close> raises \<^verbatim>\<open>ValueError\<close> on a token that is no number.
\<close>

fun scan_tokens :: "externals \<Rightarrow> string list \<Rightarrow> py_error + (string list \<times> rat list)" where
  "scan_tokens ext [] = Inr ([], [])"
| "scan_tokens ext (token # rest) =
     (case arab_search ext token of
        None \<Rightarrow> scan_tokens ext rest
      | Some arab_id \<Rightarrow>
          (case (case rest of [] \<Rightarrow> Some 0 | nxt # _ \<Rightarrow> py_float ext nxt) of
             None \<Rightarrow> Inl ValueError
           | Some score \<Rightarrow>
               (case scan_tokens ext rest of
                  Inl e \<Rightarrow> Inl e
                | Inr (arab_hits, arab_scores) \<Rightarrow> Inr (arab_id # arab_hits, score # arab_scores))))"

text \<open>\<^verbatim>\<open>_parse_orthology_file\<close>: the rows are pairs of the columns \<^verbatim>\<open>OrtoA\<close> and \<^verbatim>\<open>OrtoB\<close>.\<close>

fun parse_orthology_file ::
    "externals \<Rightarrow> string \<Rightarrow> (string \<times> string) list \<Rightarrow> (string \<rightharpoonup> ortho_info)
       \<Rightarrow> py_error + (string \<rightharpoonup> ortho_info)" where
  "parse_orthology_file ext suffix [] ortho_data = Inr ortho_data"
| "parse_orthology_file ext suffix ((orto_a, orto_b) # rows) ortho_data =
     (case brachy_search ext orto_a of
        None \<Rightarrow> parse_orthology_file ext suffix rows ortho_data
      | Some brachy_match \<Rightarrow>
          (case scan_tokens ext (py_split orto_b) of
             Inl e \<Rightarrow> Inl e
           | Inr (arab_hits, arab_scores) \<Rightarrow>
               if arab_hits = [] then parse_orthology_file ext suffix rows ortho_data
               else
                 (case py_max arab_scores of
                    Inl e \<Rightarrow> Inl e
                  | Inr best \<Rightarrow>
                      (case classify_orthology (length arab_hits) arab_scores of
                         Inl e \<Rightarrow> Inl e
                       | Inr cls \<Rightarrow>
                           parse_orthology_file ext suffix rows
                             (ortho_data(brachy_match @ suffix \<mapsto>
                                \<lparr>arabidopsis_hits = arab_hits, best_score = best,
                                 classification = cls\<rparr>))))))"

text \<open>An entry of \<^verbatim>\<open>self.arabidopsis_annotations\<close>.\<close>

record at_info =
  symbol :: string
  annotation_text :: string

definition first_hit :: "string list \<Rightarrow> string option" where
  "first_hit hits = (case hits of [] \<Rightarrow> None | h # _ \<Rightarrow> Some h)"

definition ortho_writes :: "(string \<times> at_info) list \<Rightarrow> ortho_info \<Rightarrow> ev_write list" where
  "ortho_writes annotations info =
     [Set_arabidopsis_orthologs (arabidopsis_hits info),
      Set_best_ortholog (first_hit (arabidopsis_hits info)),
      Set_best_ortholog_score (best_score info),
      Set_orthology_class (classification info)] @
     (case first_hit (arabidopsis_hits info) of
        None \<Rightarrow> []
      | Some best_orth \<Rightarrow>
          if best_orth = [] then []
          else (case map_of annotations best_orth of
                  None \<Rightarrow> []
                | Some at_inf \<Rightarrow>
                    [Set_at_symbol (symbol at_inf),
                     Set_at_annotation (take 200 (annotation_text at_inf))]))"

definition orthology_raw_score :: "config \<Rightarrow> ortho_info \<Rightarrow> rat" where
  "orthology_raw_score cfg info =
     (if best_score info < get_or (min_best_score_for_points cfg) (5 / 10) then 0
      else best_score info * best_hit_multiplier cfg
           + (if classification info = One_to_one then one_to_one_bonus cfg else 0))"

text \<open>
  The layer is switched off, \<^verbatim>\<open>read_csv\<close> raises (caught by the source: a warning and a
  return), or there is a table.
\<close>

datatype orthology_input =
    Orthology_disabled
  | Orthology_unreadable
  | Orthology_table "(string \<times> string) list"

definition score_orthology_evidence ::
    "externals \<Rightarrow> config \<Rightarrow> (string \<times> at_info) list \<Rightarrow> orthology_input \<Rightarrow> string \<Rightarrow> gene_state
       \<Rightarrow> py_error + gene_state" where
  "score_orthology_evidence ext cfg annotations inp gene st =
     (case inp of
        Orthology_disabled \<Rightarrow> Inr st
      | Orthology_unreadable \<Rightarrow> Inr st
      | Orthology_table ortho_df \<Rightarrow>
          (case parse_orthology_file ext (seurat_suffix cfg) ortho_df Map.empty of
             Inl e \<Rightarrow> Inl e
           | Inr ortho_data \<Rightarrow>
               (case ortho_data gene of
                  None \<Rightarrow> Inr st
                | Some info \<Rightarrow>
                    Inr (write_evidence (ortho_writes annotations info)
                           (set_scores cfg L_orthology (orthology_raw_score cfg info) st)))))"

section \<open>The keyword and ontology-context scorers\<close>

definition keyword_writes :: "at_info \<Rightarrow> string list \<Rightarrow> ev_write list" where
  "keyword_writes at_inf hits =
     [Set_at_symbol (symbol at_inf), Set_at_annotation (take 200 (annotation_text at_inf)),
      Set_tair_keyword_hits hits]"

text \<open>
  \<^verbatim>\<open>_score_arabidopsis_keywords\<close>; \<^verbatim>\<open>not best_orth\<close> holds for \<^verbatim>\<open>None\<close> and for the
  empty string.
\<close>

definition score_arabidopsis_keywords :: "config \<Rightarrow> (string \<times> at_info) list \<Rightarrow> gene_state \<Rightarrow> gene_state" where
  "score_arabidopsis_keywords cfg annotations st =
     (if annotations = [] then st
      else if keyword_list cfg = [] then st
      else
        (case best_ortholog (evidence st) of
           None \<Rightarrow> st
         | Some best_orth \<Rightarrow>
             if best_orth = [] then st
             else (case map_of annotations best_orth of
                     None \<Rightarrow> st
                   | Some at_inf \<Rightarrow>
                       let text = symbol at_inf @ '' '' @ annotation_text at_inf;
                           hits = filter (\<lambda>kw. search_ignorecase kw text) (keyword_list cfg);
                           raw_score = of_nat (length hits) * get_or (tair_keywords_hit cfg) 2
                       in write_evidence (keyword_writes at_inf hits)
                            (set_scores cfg L_tair raw_score st))))"

text \<open>An entry of \<^verbatim>\<open>self.arabidopsis_po_context\<close>.\<close>

record po_info =
  po_term_names :: "string list"
  po_hits :: "string list"

definition po_writes :: "po_info \<Rightarrow> ev_write list" where
  "po_writes info = [Set_po_terms (take 5 (po_term_names info)), Set_po_context_hits (po_hits info)]"

definition score_po_context :: "config \<Rightarrow> (string \<times> po_info) list \<Rightarrow> gene_state \<Rightarrow> gene_state" where
  "score_po_context cfg po_ctx st =
     (if po_ctx = [] then st
      else
        (case best_ortholog (evidence st) of
           None \<Rightarrow> st
         | Some best_orth \<Rightarrow>
             if best_orth = [] then st
             else (case map_of po_ctx best_orth of
                     None \<Rightarrow> st
                   | Some info \<Rightarrow>
                       let raw_score = of_nat (length (po_hits info)) * get_or (po_keywords_hit cfg) 1
                       in write_evidence (po_writes info) (set_scores cfg L_po raw_score st))))"

section \<open>Synergy, totals and the run for one gene\<close>

text \<open>
  \<^verbatim>\<open>_evaluate_condition\<close>. The threshold of a \<^verbatim>\<open>tair_keyword_hits>=\<close> condition is the
  second piece of the split on \<^verbatim>\<open>">="\<close>, read by \<^verbatim>\<open>int\<close>.
\<close>

definition evaluate_condition :: "externals \<Rightarrow> gene_evidence \<Rightarrow> string \<Rightarrow> py_error + bool" where
  "evaluate_condition ext ev condition =
     (if condition = ''has_PCD_GO'' then Inr (''PCD'' \<in> set (go_categories ev))
      else if condition = ''has_ROS_GO'' then Inr (''ROS'' \<in> set (go_categories ev))
      else if condition = ''has_expected_domain'' then Inr (length (matched_domains ev) > 0)
      else if starts_with condition ''tair_keyword_hits>='' then
        (case split_on ''>='' condition of
           p0 # p1 # ps \<Rightarrow>
             (case py_int ext p1 of
                None \<Rightarrow> Inl ValueError
              | Some threshold \<Rightarrow> Inr (int (length (tair_keyword_hits ev)) \<ge> threshold))
         | _ \<Rightarrow> Inl IndexError)
      else if condition = ''has_one_to_one_ortholog'' then Inr (orthology_class ev = One_to_one)
      else Inr False)"

text \<open>The loop over the conditions of a rule, with its \<^verbatim>\<open>break\<close> at the first false one.\<close>

fun all_met :: "externals \<Rightarrow> gene_evidence \<Rightarrow> string list \<Rightarrow> py_error + bool" where
  "all_met ext ev [] = Inr True"
| "all_met ext ev (cond # conditions) =
     (case evaluate_condition ext ev cond of
        Inl e \<Rightarrow> Inl e
      | Inr met \<Rightarrow> if \<not> met then Inr False else all_met ext ev conditions)"

text \<open>The loop over the rules; the accumulator is \<^verbatim>\<open>total_synergy\<close> and the list of triggers.\<close>

fun apply_rules ::
    "externals \<Rightarrow> gene_evidence \<Rightarrow> synergy_rule list \<Rightarrow> rat \<times> string list \<Rightarrow> py_error + (rat \<times> string list)" where
  "apply_rules ext ev [] acc = Inr acc"
| "apply_rules ext ev (rule # rules) (total_synergy, triggers) =
     (case all_met ext ev (get_or (if_all rule) []) of
        Inl e \<Rightarrow> Inl e
      | Inr met \<Rightarrow>
          if met
          then apply_rules ext ev rules
                 (total_synergy + get_or (bonus rule) 0, triggers @ [get_or (rule_name rule) ''unnamed''])
          else apply_rules ext ev rules (total_synergy, triggers))"

definition compute_synergy_bonuses :: "externals \<Rightarrow> config \<Rightarrow> gene_state \<Rightarrow> py_error + gene_state" where
  "compute_synergy_bonuses ext cfg st =
     (if synergy_rules cfg = [] then Inr st
      else
        (case apply_rules ext (evidence st) (synergy_rules cfg) (0, synergy_bonuses st) of
           Inl e \<Rightarrow> Inl e
         | Inr (total_synergy, triggers) \<Rightarrow>
             Inr ((set_scores cfg L_synergy total_synergy st)\<lparr>synergy_bonuses := triggers\<rparr>)))"

definition all_layers :: "layer list" where
  "all_layers = [L_go, L_domain, L_orthology, L_tair, L_po, L_synergy]"

definition compute_total_scores :: "gene_state \<Rightarrow> gene_state" where
  "compute_total_scores st = st\<lparr>total := sum_list (map (capped st) all_layers)\<rparr>"

text \<open>
  What \<^verbatim>\<open>run\<close> does for one gene of the base list: initialisation, the five scorers (each
  optional one behind its \<^verbatim>\<open>enabled\<close> flag), synergy, total. An exception of a stage ends
  the run.
\<close>

record run_inputs =
  gene_annots :: "string list"
  domain_in :: domain_input
  orthology_in :: orthology_input
  arabidopsis_context_enabled :: bool
  po_context_enabled :: bool
  arabidopsis_annotations :: "(string \<times> at_info) list"
  arabidopsis_po_context :: "(string \<times> po_info) list"

definition run_gene :: "externals \<Rightarrow> config \<Rightarrow> run_inputs \<Rightarrow> string \<Rightarrow> py_error + gene_state" where
  "run_gene ext cfg inp gene =
     (let st1 = score_go_evidence cfg (gene_annots inp) init_state in
      case score_domain_evidence ext cfg (domain_in inp) gene st1 of
        Inl e \<Rightarrow> Inl e
      | Inr st2 \<Rightarrow>
          (case score_orthology_evidence ext cfg (arabidopsis_annotations inp) (orthology_in inp) gene st2 of
             Inl e \<Rightarrow> Inl e
           | Inr st3 \<Rightarrow>
               let st4 = (if arabidopsis_context_enabled inp
                          then score_arabidopsis_keywords cfg (arabidopsis_annotations inp) st3 else st3);
                   st5 = (if po_context_enabled inp
                          then score_po_context cfg (arabidopsis_po_context inp) st4 else st4)
               in (case compute_synergy_bonuses ext cfg st5 of
                     Inl e \<Rightarrow> Inl e
                   | Inr st6 \<Rightarrow> Inr (compute_total_scores st6))))"

section \<open>Knee threshold\<close>

text \<open>
  \<^verbatim>\<open>np.median\<close>: the middle element of the sorted array, or the mean of the two middle
  ones; on an empty array numpy returns \<^verbatim>\<open>nan\<close>, which is no rational.
\<close>

definition np_median :: "rat list \<Rightarrow> py_error + rat" where
  "np_median xs =
     (let n = length xs; s = sort xs in
      if n = 0 then Inl NotANumber
      else if odd n then Inr (s ! (n div 2))
      else Inr ((s ! (n div 2 - 1) + s ! (n div 2)) / 2))"

text \<open>
  \<^verbatim>\<open>np.gradient\<close> with unit spacing: one-sided differences at the two ends, central
  differences inside; it raises \<^verbatim>\<open>ValueError\<close> on fewer than two elements.
\<close>

definition np_gradient :: "rat list \<Rightarrow> py_error + rat list" where
  "np_gradient f =
     (let n = length f in
      if n < 2 then Inl ValueError
      else Inr (map (\<lambda>i. if i = 0 then f ! 1 - f ! 0
                         else if i = n - 1 then f ! (n - 1) - f ! (n - 2)
                         else (f ! (i + 1) - f ! (i - 1)) / 2) [0..<n]))"

text \<open>\<^verbatim>\<open>np.argmax\<close>: the first index of the maximum; \<^verbatim>\<open>ValueError\<close> on an empty array.\<close>

fun argmax_from :: "rat list \<Rightarrow> nat \<Rightarrow> nat \<Rightarrow> rat \<Rightarrow> nat" where
  "argmax_from [] i best_i best = best_i"
| "argmax_from (x # xs) i best_i best =
     (if x > best then argmax_from xs (Suc i) i x else argmax_from xs (Suc i) best_i best)"

definition np_argmax :: "rat list \<Rightarrow> py_error + nat" where
  "np_argmax xs = (case xs of [] \<Rightarrow> Inl ValueError | x # rest \<Rightarrow> Inr (argmax_from rest 1 0 x))"

text \<open>
  The search window of \<^verbatim>\<open>_find_knee_threshold\<close>: \<^verbatim>\<open>int(len * 0.1)\<close> and \<^verbatim>\<open>int(len * 0.3)\<close>,
  that is, the tenth and three tenths of the length, rounded down.
\<close>

definition knee_start :: "nat \<Rightarrow> nat" where
  "knee_start n = n div 10"

definition knee_end :: "nat \<Rightarrow> nat" where
  "knee_end n = (3 * n) div 10"

text \<open>The denominator of the normalisation, with the literal \<^verbatim>\<open>1e-10\<close>.\<close>

definition norm_denominator :: "rat \<Rightarrow> rat \<Rightarrow> rat" where
  "norm_denominator lo hi = hi - lo + 1 / 10 ^ 10"

text \<open>
  The normalised scores and their second derivative, as the source computes them from the
  scores sorted in descending order. A zero denominator is an error of the model (numpy
  would go on with \<^verbatim>\<open>inf\<close> or \<^verbatim>\<open>nan\<close>).
\<close>

definition normalize :: "rat list \<Rightarrow> py_error + rat list" where
  "normalize sorted_scores =
     (case py_min sorted_scores of
        Inl e \<Rightarrow> Inl e
      | Inr lo \<Rightarrow>
          (case py_max sorted_scores of
             Inl e \<Rightarrow> Inl e
           | Inr hi \<Rightarrow>
               if norm_denominator lo hi = 0 then Inl ZeroDivision
               else Inr (map (\<lambda>x. (x - lo) / norm_denominator lo hi) sorted_scores)))"

definition second_derivative :: "rat list \<Rightarrow> py_error + rat list" where
  "second_derivative normed =
     (case np_gradient normed of Inl e \<Rightarrow> Inl e | Inr grad \<Rightarrow> np_gradient grad)"

definition find_knee_threshold :: "rat list \<Rightarrow> py_error + rat" where
  "find_knee_threshold scores =
     (let sorted_scores = sorted_desc scores in
      if length sorted_scores < 10 then np_median scores
      else
        (case normalize sorted_scores of
           Inl e \<Rightarrow> Inl e
         | Inr normed \<Rightarrow>
             (case second_derivative normed of
                Inl e \<Rightarrow> Inl e
              | Inr grad2 \<Rightarrow>
                  let start = knee_start (length sorted_scores);
                      stop = knee_end (length sorted_scores)
                  in (case np_argmax (map abs (take (stop - start) (drop start grad2))) of
                        Inl e \<Rightarrow> Inl e
                      | Inr k \<Rightarrow>
                          let knee_idx = start + k in
                          if knee_idx < length sorted_scores then Inr (sorted_scores ! knee_idx)
                          else Inl IndexError))))"

section \<open>Readers of plain decimal literals\<close>

text \<open>
  Instances of \<^verbatim>\<open>int\<close> and \<^verbatim>\<open>float\<close> for concrete runs: on a string of decimal digits
  (with at most one point, for \<open>dec_float\<close>) they return the number Python returns, and on
  a string with any other character outside the digits and the point, such as a gene
  identifier, they fail as Python does.
\<close>

fun digits_val :: "string \<Rightarrow> nat \<Rightarrow> nat option" where
  "digits_val [] acc = Some acc"
| "digits_val (c # cs) acc =
     (if is_digit c then digits_val cs (10 * acc + (of_char c - 48)) else None)"

definition dec_int :: "string \<Rightarrow> int option" where
  "dec_int s = (if s = [] then None else map_option int (digits_val s 0))"

definition dec_float :: "string \<Rightarrow> rat option" where
  "dec_float s =
     (let ip = takeWhile (\<lambda>c. c \<noteq> CHR ''.'') s; fp = drop (length ip + 1) s in
      if ip = [] then None
      else (case (digits_val ip 0, digits_val fp 0) of
              (Some a, Some b) \<Rightarrow> Some (of_nat a + of_nat b / 10 ^ length fp)
            | _ \<Rightarrow> None))"

definition default_externals :: externals where
  "default_externals = \<lparr>py_int = dec_int, py_float = dec_float, fmt_evalue = (\<lambda>e. ''0''),
     brachy_search = re_search brachy_default, arab_search = re_search arab_default\<rparr>"

section \<open>Notions used to state the properties\<close>

text \<open>
  The five scorer passes, and the assignment lists to a gene's evidence that each of them
  executes (for some values of its local variables) when it does not skip the gene.
\<close>

datatype scorer = Scorer_go | Scorer_domain | Scorer_orthology | Scorer_keyword | Scorer_po

inductive executes :: "scorer \<Rightarrow> ev_write list \<Rightarrow> bool" where
  "executes Scorer_go (go_writes terms categories)"
| "executes Scorer_domain (domain_writes matched)"
| "executes Scorer_orthology (ortho_writes annotations info)"
| "executes Scorer_keyword (keyword_writes at_inf hits)"
| "executes Scorer_po (po_writes po)"

definition fields_of :: "ev_write list \<Rightarrow> ev_field set" where
  "fields_of ws = field_of ` set ws"

text \<open>A configuration whose weights, bonuses, thresholds and caps are not negative.\<close>

definition nonneg_config :: "config \<Rightarrow> bool" where
  "nonneg_config cfg =
     (list_all (\<lambda>(category, v). list_all (\<lambda>(t, w). 0 \<le> w)
                  (case v of Term_weights d \<Rightarrow> d | Not_a_dict \<Rightarrow> [])) (go_weights cfg)
      \<and> list_all (\<lambda>l. 0 \<le> cap_of cfg l) all_layers
      \<and> 0 \<le> get_or (domain_match_hit cfg) 2
      \<and> 0 \<le> best_hit_multiplier cfg
      \<and> 0 \<le> one_to_one_bonus cfg
      \<and> 0 \<le> get_or (min_best_score_for_points cfg) (5 / 10)
      \<and> 0 \<le> get_or (tair_keywords_hit cfg) 2
      \<and> 0 \<le> get_or (po_keywords_hit cfg) 1
      \<and> list_all (\<lambda>r. 0 \<le> get_or (bonus r) 0) (synergy_rules cfg))"

text \<open>
  A category lists a GO id (\<^verbatim>\<open>go_id in term_weights\<close>) with a weight
  (\<^verbatim>\<open>term_weights[go_id]\<close>).
\<close>

definition listed_in :: "cat_val \<Rightarrow> string \<Rightarrow> bool" where
  "listed_in v t = (case v of Term_weights d \<Rightarrow> map_of d t \<noteq> None | Not_a_dict \<Rightarrow> False)"

definition weight_in :: "cat_val \<Rightarrow> string \<Rightarrow> rat" where
  "weight_in v t =
     (case v of Term_weights d \<Rightarrow> (case map_of d t of None \<Rightarrow> 0 | Some w \<Rightarrow> w) | Not_a_dict \<Rightarrow> 0)"



text \<open>
  The condition names \<^verbatim>\<open>_evaluate_condition\<close> recognises, and a rule all of whose
  conditions hold.
\<close>

definition recognized_condition :: "string \<Rightarrow> bool" where
  "recognized_condition c =
     (c = ''has_PCD_GO'' \<or> c = ''has_ROS_GO'' \<or> c = ''has_expected_domain''
      \<or> starts_with c ''tair_keyword_hits>='' \<or> c = ''has_one_to_one_ortholog'')"

definition rule_holds :: "externals \<Rightarrow> gene_evidence \<Rightarrow> synergy_rule \<Rightarrow> bool" where
  "rule_holds ext ev rule =
     list_all (\<lambda>c. evaluate_condition ext ev c = Inr True) (get_or (if_all rule) [])"

section \<open>An example run\<close>

text \<open>
  A small configuration and the inputs of one gene, used to evaluate the definitions: one
  matching GO row, one expected domain, one orthologue with score 1.0 whose annotation
  holds both keywords and one context hit, and three synergy rules, the last of which names
  a condition the source does not know.
\<close>

definition example_cfg :: config where
  "example_cfg = \<lparr>
     go_weights = [(''PCD'', Term_weights [(''GO:0012501'', 3)]),
                   (''ROS'', Term_weights [(''GO:0006979'', 2)])],
     score_caps = \<lparr>go_max = 5, domain_max = 5, orthology_max = 4, tair_max = 4, po_max = 2,
                    synergy_max = None\<rparr>,
     domain_match_hit = Some 2,
     expected_domains = [(''PCD'', [''PF00656''])],
     best_hit_multiplier = 2,
     one_to_one_bonus = 1,
     min_best_score_for_points = None,
     tair_keywords_hit = Some 2,
     keyword_list = [''death'', ''metacaspase''],
     po_keywords_hit = None,
     synergy_rules =
       [\<lparr>rule_name = Some ''go_domain'', if_all = Some [''has_PCD_GO'', ''has_expected_domain''],
         bonus = Some 3\<rparr>,
        \<lparr>rule_name = Some ''kw_orth'',
         if_all = Some [''tair_keyword_hits>=2'', ''has_one_to_one_ortholog''], bonus = Some 4\<rparr>,
        \<lparr>rule_name = None, if_all = Some [''has_PCD_GO'', ''no_such_condition''],
         bonus = Some 10\<rparr>],
     seurat_suffix = ''.v1.2'',
     go_level_filter = None\<rparr>"

definition example_gene :: string where
  "example_gene = ''BdiBd21-3.2G0277200.v1.2''"

definition example_at_info :: at_info where
  "example_at_info = \<lparr>symbol = ''MC1'', annotation_text = ''metacaspase in cell death''\<rparr>"

definition example_annotations :: "(string \<times> at_info) list" where
  "example_annotations = [(''AT1G02170'', example_at_info)]"

definition example_inputs :: run_inputs where
  "example_inputs = \<lparr>
     gene_annots = [''GO:0012501''],
     domain_in = Domain_table
       [(''BdiBd21-3.2G0277200.v1.2'',
         [\<lparr>pfam_id = ''PF00656'', pfam_name = ''Peptidase_C14'', evalue = 1 / 10 ^ 20\<rparr>])],
     orthology_in = Orthology_table [(''BdiBd21-3.2G0277200.1'', ''AT1G02170 1.0'')],
     arabidopsis_context_enabled = True,
     po_context_enabled = True,
     arabidopsis_annotations = example_annotations,
     arabidopsis_po_context =
       [(''AT1G02170'', \<lparr>po_term_names = [''leaf senescence stage'', ''flower''],
                        po_hits = [''leaf senescence stage'']\<rparr>)]\<rparr>"

text \<open>What the orthology parser records for the gene of the example.\<close>

definition example_ortho_info :: ortho_info where
  "example_ortho_info =
     \<lparr>arabidopsis_hits = [''AT1G02170''], best_score = 1, classification = One_to_one\<rparr>"

text \<open>
  A step from \<open>st\<close> to \<open>st'\<close> that either leaves the scores alone or stores a raw score
  \<open>r\<close> with \<open>P r\<close>, and its capped value, for the layer \<open>l\<close>.
\<close>

definition only_layer :: "config \<Rightarrow> layer \<Rightarrow> (rat \<Rightarrow> bool) \<Rightarrow> gene_state \<Rightarrow> gene_state \<Rightarrow> bool" where
  "only_layer cfg l P st st' =
     ((raw st' = raw st \<and> capped st' = capped st)
      \<or> (\<exists>r. P r \<and> raw st' = (raw st)(l := r)
               \<and> capped st' = (capped st)(l := min r (cap_of cfg l))))"

text \<open>The state the example run ends in, and its third synergy rule.\<close>

definition example_final_state :: gene_state where
  "example_final_state = projr (run_gene default_externals example_cfg example_inputs example_gene)"

definition example_unknown_rule :: synergy_rule where
  "example_unknown_rule =
     \<lparr>rule_name = None, if_all = Some [''has_PCD_GO'', ''no_such_condition''], bonus = Some 10\<rparr>"

section \<open>Basic facts about the list functions\<close>




lemma set_sorted_desc [simp]: "set (sorted_desc xs) = set xs"
  by (simp add: sorted_desc_def)

section \<open>C2: orthology classification\<close>




section \<open>C6: the three identifier mappings\<close>




text \<open>
  The example of the docstring of \<^verbatim>\<open>extract_gene_id\<close> without the \<^verbatim>\<open>.p\<close> ending: the
  docstring promises \<^verbatim>\<open>BdiBd21-3.2G0277200.v1.2\<close>, the function keeps the \<^verbatim>\<open>.1\<close>.
\<close>

lemma extract_gene_id_docstring_example:
  "extract_gene_id ''BdiBd21-3.2G0277200.1'' = ''BdiBd21-3.2G0277200.1.v1.2''"
  by (simp add: extract_gene_id_def starts_with_def ends_with_def)




section \<open>C7: a malformed orthology table\<close>

text \<open>
  C7, evaluated at a table the source can read: one row whose \<^verbatim>\<open>OrtoB\<close> column lists two
  target ids before the first number. \<^verbatim>\<open>float\<close> is applied to the second id and raises
  \<^verbatim>\<open>ValueError\<close>; nothing in \<^verbatim>\<open>_score_orthology_evidence\<close> or in \<^verbatim>\<open>run\<close> catches it, so
  the run ends with the error for every gene, configuration and state. An unreadable file,
  in contrast, leaves the state as it is.
\<close>

theorem malformed_orthology_row_aborts_run:
  "score_orthology_evidence default_externals cfg annotations
     (Orthology_table [(''BdiBd21-3.2G0277200.1'', ''AT1G01010 AT1G01020 1.0'')]) gene st
     = Inl ValueError
   \<and> run_gene default_externals cfg
       (inp\<lparr>domain_in := Domain_skipped,
            orthology_in := Orthology_table [(''BdiBd21-3.2G0277200.1'', ''AT1G01010 AT1G01020 1.0'')]\<rparr>)
       gene = Inl ValueError
   \<and> score_orthology_evidence default_externals cfg annotations Orthology_unreadable gene st = Inr st"
  by (simp add: run_gene_def score_domain_evidence_def score_orthology_evidence_def py_split_def
      is_space_def default_externals_def arab_default_def brachy_default_def is_digit_def
      dec_float_def)

section \<open>C8: the recorded best orthologue\<close>

text \<open>
  C8, evaluated at a row whose targets are not listed by descending score:
  \<^verbatim>\<open>AT1G01010 0.5 AT2G02020 1.0\<close>. The gene's evidence records \<^verbatim>\<open>AT1G01010\<close>, the first
  target of the row, as best orthologue, together with the best score 1, which is the
  score of \<^verbatim>\<open>AT2G02020\<close>; the score read for \<^verbatim>\<open>AT1G01010\<close> is 0.5.
\<close>

theorem best_ortholog_is_first_listed:
  "(case score_orthology_evidence default_externals cfg []
           (Orthology_table [(''BdiBd21-3.2G0277200.1'', ''AT1G01010 0.5 AT2G02020 1.0'')])
           (''BdiBd21-3.2G0277200'' @ seurat_suffix cfg) st of
      Inl e \<Rightarrow> None
    | Inr st' \<Rightarrow> Some (best_ortholog (evidence st'), best_ortholog_score (evidence st'),
                      arabidopsis_orthologs (evidence st')))
     = Some (Some ''AT1G01010'', 1, [''AT1G01010'', ''AT2G02020''])
   \<and> scan_tokens default_externals (py_split ''AT1G01010 0.5 AT2G02020 1.0'')
       = Inr ([''AT1G01010'', ''AT2G02020''], [1 / 2, 1])"
  by (simp add: score_orthology_evidence_def py_split_def is_space_def default_externals_def
      arab_default_def brachy_default_def is_digit_def dec_float_def classify_orthology_def
      sorted_desc_def ortho_writes_def first_hit_def write_evidence_def apply_writes_def
      set_scores_def)

section \<open>Evaluation of the example run\<close>

lemmas eval_defs = run_gene_def score_go_evidence_def go_scan_def go_row_step_def go_writes_def
  score_domain_evidence_def categorize_gene_def cat_keys_def expected_for_def domain_matches_def
  domain_writes_def score_orthology_evidence_def py_split_def is_space_def default_externals_def
  arab_default_def brachy_default_def is_digit_def dec_float_def dec_int_def classify_orthology_def
  sorted_desc_def ortho_writes_def first_hit_def orthology_raw_score_def
  score_arabidopsis_keywords_def keyword_writes_def search_ignorecase_def str_lower_def
  lower_char_def starts_with_def score_po_context_def po_writes_def
  compute_synergy_bonuses_def evaluate_condition_def split_on_def
  compute_total_scores_def all_layers_def write_evidence_def apply_writes_def set_scores_def
  get_or_def sorted_set_def init_state_def init_evidence_def
  example_cfg_def example_inputs_def example_gene_def example_annotations_def example_at_info_def
  example_ortho_info_def

lemma example_run:
  "(case run_gene default_externals example_cfg example_inputs example_gene of
      Inl e \<Rightarrow> None
    | Inr st \<Rightarrow> Some (map (raw st) all_layers, map (capped st) all_layers, total st))
   = Some ([3, 2, 3, 4, 1, 7], [3, 2, 3, 4, 1, 6], 19)"
  by (simp add: eval_defs Let_def)


section \<open>C9: which scorer writes which evidence field\<close>

lemma fields_go [simp]: "fields_of (go_writes t c) = {F_go_terms, F_go_categories}"
  by (simp add: fields_of_def go_writes_def)
lemma fields_domain [simp]: "fields_of (domain_writes m) = {F_matched_domains}"
  by (simp add: fields_of_def domain_writes_def)
lemma fields_keyword [simp]:
  "fields_of (keyword_writes a h) = {F_at_symbol, F_at_annotation, F_tair_keyword_hits}"
  by (simp add: fields_of_def keyword_writes_def)
lemma fields_po [simp]: "fields_of (po_writes p) = {F_po_terms, F_po_context_hits}"
  by (simp add: fields_of_def po_writes_def)




lemma keyword_scorer_executes:
  "score_arabidopsis_keywords cfg ann st = st
   \<or> (\<exists>ws r. executes Scorer_keyword ws
         \<and> score_arabidopsis_keywords cfg ann st = write_evidence ws (set_scores cfg L_tair r st))"
  by (auto simp add: score_arabidopsis_keywords_def Let_def intro: executes.intros
      split: option.splits)

lemma orthology_scorer_executes:
  "score_orthology_evidence ext cfg ann inp gene st = Inr st' \<Longrightarrow>
   st' = st \<or> (\<exists>ws r. executes Scorer_orthology ws
                  \<and> st' = write_evidence ws (set_scores cfg L_orthology r st))"
  by (auto simp add: score_orthology_evidence_def intro: executes.intros
      split: orthology_input.splits sum.splits option.splits)




section \<open>C3: the raw GO score\<close>

lemma go_category_step_eq:
  "go_category_step t (r, ts, cs) (c, v) =
     (if listed_in v t
      then (r + weight_in v t, ts @ [t], if c \<notin> set cs then cs @ [c] else cs)
      else (r, ts, cs))"
  by (cases v) (auto simp add: listed_in_def weight_in_def split: option.splits)

lemma not_listed_weight: "\<not> listed_in v t \<Longrightarrow> weight_in v t = 0"
  by (cases v) (auto simp add: listed_in_def weight_in_def)

lemma go_row_step_fold: "go_row_step ws = (\<lambda>acc t. foldl (go_category_step t) acc ws)"
  by (intro ext) (simp add: go_row_step_def)

lemma cat_fold:
  "foldl (go_category_step t) (r, ts, cs) ws = (r', ts', cs') \<Longrightarrow>
     r' = r + sum_list (map (\<lambda>(c, v). weight_in v t) ws)
   \<and> set cs' = set cs \<union> {c. \<exists>v. (c, v) \<in> set ws \<and> listed_in v t}
   \<and> set ts' = set ts \<union> {x. x = t \<and> (\<exists>c v. (c, v) \<in> set ws \<and> listed_in v t)}"
proof (induction ws arbitrary: r ts cs)
  case Nil
  then show ?case by simp
next
  case (Cons w ws)
  obtain c v where w: "w = (c, v)" by (cases w)
  show ?case
  proof (cases "listed_in v t")
    case True
    with Cons.prems w
    have "foldl (go_category_step t) (r + weight_in v t, ts @ [t], if c \<notin> set cs then cs @ [c] else cs) ws
            = (r', ts', cs')"
      by (simp add: go_category_step_eq)
    from Cons.IH [OF this] True w show ?thesis by auto
  next
    case False
    with Cons.prems w have "foldl (go_category_step t) (r, ts, cs) ws = (r', ts', cs')"
      by (simp add: go_category_step_eq)
    from Cons.IH [OF this] False w show ?thesis by (auto simp add: not_listed_weight)
  qed
qed

lemma row_fold:
  "foldl (go_row_step ws) (r, ts, cs) annots = (r', ts', cs') \<Longrightarrow>
     r' = r + sum_list (map (\<lambda>t. sum_list (map (\<lambda>(c, v). weight_in v t) ws)) annots)
   \<and> set cs' = set cs \<union> {c. \<exists>v t. (c, v) \<in> set ws \<and> t \<in> set annots \<and> listed_in v t}
   \<and> set ts' = set ts \<union> {t \<in> set annots. \<exists>c v. (c, v) \<in> set ws \<and> listed_in v t}"
proof (induction annots arbitrary: r ts cs)
  case Nil
  then show ?case by simp
next
  case (Cons a annots)
  obtain r1 ts1 cs1 where s: "foldl (go_category_step a) (r, ts, cs) ws = (r1, ts1, cs1)"
    by (metis prod_cases3)
  with Cons.prems have "foldl (go_row_step ws) (r1, ts1, cs1) annots = (r', ts', cs')"
    by (simp add: go_row_step_fold)
  from Cons.IH [OF this] cat_fold [OF s] show ?case by auto
qed

lemma go_scan_result:
  "go_scan ws annots = (r, ts, cs) \<Longrightarrow>
     r = sum_list (map (\<lambda>t. sum_list (map (\<lambda>(c, v). weight_in v t) ws)) annots)
   \<and> set cs = {c. \<exists>v t. (c, v) \<in> set ws \<and> t \<in> set annots \<and> listed_in v t}
   \<and> set ts = {t \<in> set annots. \<exists>c v. (c, v) \<in> set ws \<and> listed_in v t}"
  unfolding go_scan_def using row_fold [of ws 0 "[]" "[]" annots r ts cs] by simp




text \<open>Two rows with the same term are added twice as well.\<close>

lemma go_scan_duplicate_rows:
  "fst (go_scan [(''PCD'', Term_weights [(''GO:0012501'', 3)])] [''GO:0012501'', ''GO:0012501'']) = 6"
  by (simp add: go_scan_def go_row_step_def)

section \<open>The stages of a run and the scores they store\<close>

lemma only_layer_mono:
  "only_layer cfg l P st st' \<Longrightarrow> (\<And>r. P r \<Longrightarrow> Q r) \<Longrightarrow> only_layer cfg l Q st st'"
  unfolding only_layer_def by blast

lemma only_layer_intro:
  "P r \<Longrightarrow> only_layer cfg l P st (write_evidence ws (set_scores cfg l r st))"
  unfolding only_layer_def by (auto simp add: write_evidence_def set_scores_def)

lemma only_layer_refl: "only_layer cfg l P st st"
  unfolding only_layer_def by simp

lemma go_step:
  "only_layer cfg L_go (\<lambda>r. r = fst (go_scan (go_weights cfg) annots)) st
     (score_go_evidence cfg annots st)"
  unfolding score_go_evidence_def
  by (cases "go_scan (go_weights cfg) annots") (simp add: only_layer_intro)

lemma domain_step:
  "score_domain_evidence ext cfg dom_in gene st = Inr st' \<Longrightarrow>
   only_layer cfg L_domain (\<lambda>r. \<exists>n::nat. r = of_nat n * get_or (domain_match_hit cfg) 2) st st'"
  by (auto simp add: score_domain_evidence_def Let_def only_layer_refl
      intro!: only_layer_intro split: domain_input.splits sum.splits)

lemma orthology_step:
  "score_orthology_evidence ext cfg ann inp gene st = Inr st' \<Longrightarrow>
   only_layer cfg L_orthology (\<lambda>r. \<exists>info. r = orthology_raw_score cfg info) st st'"
  by (auto simp add: score_orthology_evidence_def only_layer_refl
      intro!: only_layer_intro split: orthology_input.splits sum.splits option.splits)

lemma keyword_step:
  "only_layer cfg L_tair (\<lambda>r. \<exists>n::nat. r = of_nat n * get_or (tair_keywords_hit cfg) 2) st
     (score_arabidopsis_keywords cfg ann st)"
  by (auto simp add: score_arabidopsis_keywords_def Let_def only_layer_refl
      intro!: only_layer_intro split: option.splits)

lemma po_step:
  "only_layer cfg L_po (\<lambda>r. \<exists>n::nat. r = of_nat n * get_or (po_keywords_hit cfg) 1) st
     (score_po_context cfg po st)"
  by (auto simp add: score_po_context_def Let_def only_layer_refl
      intro!: only_layer_intro split: option.splits)


section \<open>C4: synergy bonuses\<close>

lemma all_met_result:
  "all_met ext ev cs = Inr b \<Longrightarrow>
   b = list_all (\<lambda>c. evaluate_condition ext ev c = Inr True) cs"
proof (induction cs)
  case Nil
  then show ?case by simp
next
  case (Cons c cs)
  then show ?case
    by (cases "evaluate_condition ext ev c") (auto split: if_splits)
qed

lemma all_met_total:
  "list_all (\<lambda>c. \<exists>b. evaluate_condition ext ev c = Inr b) cs \<Longrightarrow> \<exists>b. all_met ext ev cs = Inr b"
  by (induction cs) auto

lemma apply_rules_result:
  "apply_rules ext ev rules (t, ns) = Inr (t', ns') \<Longrightarrow>
   t' = t + sum_list (map (\<lambda>r. if rule_holds ext ev r then get_or (bonus r) 0 else 0) rules)"
proof (induction rules arbitrary: t ns)
  case Nil
  then show ?case by simp
next
  case (Cons r rules)
  show ?case
  proof (cases "all_met ext ev (get_or (if_all r) [])")
    case (Inl e)
    with Cons.prems show ?thesis by simp
  next
    case (Inr b)
    from all_met_result [OF Inr] have b: "b = rule_holds ext ev r" by (simp add: rule_holds_def)
    show ?thesis
    proof (cases b)
      case True
      with Cons.prems Inr
      have "apply_rules ext ev rules (t + get_or (bonus r) 0, ns @ [get_or (rule_name r) ''unnamed''])
              = Inr (t', ns')" by simp
      from Cons.IH [OF this] True b show ?thesis by simp
    next
      case False
      with Cons.prems Inr have "apply_rules ext ev rules (t, ns) = Inr (t', ns')" by simp
      from Cons.IH [OF this] False b show ?thesis by simp
    qed
  qed
qed

lemma apply_rules_total:
  "list_all (\<lambda>r. list_all (\<lambda>c. \<exists>b. evaluate_condition ext ev c = Inr b) (get_or (if_all r) [])) rules
   \<Longrightarrow> \<exists>acc'. apply_rules ext ev rules acc = Inr acc'"
proof (induction rules arbitrary: acc)
  case Nil
  then show ?case by simp
next
  case (Cons r rules)
  obtain t ns where acc: "acc = (t, ns)" by (cases acc)
  from Cons.prems obtain b where b: "all_met ext ev (get_or (if_all r) []) = Inr b"
    using all_met_total by fastforce
  from Cons.prems have rest: "list_all (\<lambda>r. list_all (\<lambda>c. \<exists>b. evaluate_condition ext ev c = Inr b)
      (get_or (if_all r) [])) rules" by simp
  show ?case using Cons.IH [OF rest] b acc by simp
qed

lemma unrecognized_condition_false:
  "\<not> recognized_condition c \<Longrightarrow> evaluate_condition ext ev c = Inr False"
  by (simp add: recognized_condition_def evaluate_condition_def)

lemma unrecognized_condition_blocks_rule:
  assumes "\<not> recognized_condition c" and "c \<in> set (get_or (if_all r) [])"
  shows "\<not> rule_holds ext ev r"
proof
  assume "rule_holds ext ev r"
  with assms(2) have "evaluate_condition ext ev c = Inr True"
    by (simp add: rule_holds_def list_all_iff)
  with unrecognized_condition_false [OF assms(1), of ext ev] show False by simp
qed

lemma synergy_step:
  assumes "compute_synergy_bonuses ext cfg st = Inr st'"
  shows "evidence st' = evidence st
       \<and> (if synergy_rules cfg = [] then raw st' = raw st \<and> capped st' = capped st
          else raw st' = (raw st)(L_synergy :=
                   sum_list (map (\<lambda>r. if rule_holds ext (evidence st) r then get_or (bonus r) 0 else 0)
                               (synergy_rules cfg)))
             \<and> capped st' = (capped st)(L_synergy :=
                   min (sum_list (map (\<lambda>r. if rule_holds ext (evidence st) r then get_or (bonus r) 0 else 0)
                               (synergy_rules cfg))) (cap_of cfg L_synergy)))"
proof (cases "synergy_rules cfg = []")
  case True
  with assms show ?thesis by (simp add: compute_synergy_bonuses_def)
next
  case False
  with assms obtain t ns where
    a: "apply_rules ext (evidence st) (synergy_rules cfg) (0, synergy_bonuses st) = Inr (t, ns)"
    and s: "st' = (set_scores cfg L_synergy t st)\<lparr>synergy_bonuses := ns\<rparr>"
    by (auto simp add: compute_synergy_bonuses_def split: sum.splits)
  from apply_rules_result [OF a] s False show ?thesis
    by (simp add: set_scores_def)
qed

lemma synergy_total:
  assumes "list_all (\<lambda>r. list_all (\<lambda>c. \<exists>b. evaluate_condition ext (evidence s) c = Inr b)
             (get_or (if_all r) [])) (synergy_rules cfg)"
  shows "\<exists>s'. compute_synergy_bonuses ext cfg s = Inr s'"
proof -
  from apply_rules_total [OF assms, of "(0, synergy_bonuses s)"]
  obtain acc' where "apply_rules ext (evidence s) (synergy_rules cfg) (0, synergy_bonuses s) = Inr acc'"
    by blast
  then show ?thesis by (cases acc') (simp add: compute_synergy_bonuses_def)
qed

lemma run_gene_stages:
  assumes "run_gene ext cfg inp gene = Inr st"
  obtains st2 st3 st4 st5 st6 where
    "score_domain_evidence ext cfg (domain_in inp) gene
        (score_go_evidence cfg (gene_annots inp) init_state) = Inr st2"
    "score_orthology_evidence ext cfg (arabidopsis_annotations inp) (orthology_in inp) gene st2 = Inr st3"
    "st4 = (if arabidopsis_context_enabled inp
            then score_arabidopsis_keywords cfg (arabidopsis_annotations inp) st3 else st3)"
    "st5 = (if po_context_enabled inp then score_po_context cfg (arabidopsis_po_context inp) st4 else st4)"
    "compute_synergy_bonuses ext cfg st5 = Inr st6"
    "st = compute_total_scores st6"
  using assms
  by (auto simp add: run_gene_def Let_def split: sum.splits)

lemma only_layer_other:
  "only_layer cfg l P st st' \<Longrightarrow> l' \<noteq> l \<Longrightarrow> raw st' l' = raw st l' \<and> capped st' l' = capped st l'"
  unfolding only_layer_def by auto

lemma keyword_stage:
  "st4 = (if en then score_arabidopsis_keywords cfg ann st3 else st3) \<Longrightarrow>
   only_layer cfg L_tair (\<lambda>r. \<exists>n::nat. r = of_nat n * get_or (tair_keywords_hit cfg) 2) st3 st4"
  by (simp add: keyword_step only_layer_refl)

lemma po_stage:
  "st5 = (if en then score_po_context cfg po st4 else st4) \<Longrightarrow>
   only_layer cfg L_po (\<lambda>r. \<exists>n::nat. r = of_nat n * get_or (po_keywords_hit cfg) 1) st4 st5"
  by (simp add: po_step only_layer_refl)

lemma evidence_compute_total [simp]: "evidence (compute_total_scores st) = evidence st"
  by (simp add: compute_total_scores_def)

lemma scores_compute_total [simp]:
  "raw (compute_total_scores st) = raw st" "capped (compute_total_scores st) = capped st"
  by (simp_all add: compute_total_scores_def)

text \<open>The synergy scores at the end of a run.\<close>

lemma run_synergy:
  assumes run: "run_gene ext cfg inp gene = Inr st"
  shows "raw st L_synergy
            = sum_list (map (\<lambda>r. if rule_holds ext (evidence st) r then get_or (bonus r) 0 else 0)
                         (synergy_rules cfg))
       \<and> (if synergy_rules cfg = [] then capped st L_synergy = 0
          else capped st L_synergy = min (raw st L_synergy) (cap_of cfg L_synergy))"
proof -
  from run obtain st2 st3 st4 st5 st6 where
    d: "score_domain_evidence ext cfg (domain_in inp) gene
        (score_go_evidence cfg (gene_annots inp) init_state) = Inr st2"
    and o: "score_orthology_evidence ext cfg (arabidopsis_annotations inp) (orthology_in inp) gene st2 = Inr st3"
    and k: "st4 = (if arabidopsis_context_enabled inp
            then score_arabidopsis_keywords cfg (arabidopsis_annotations inp) st3 else st3)"
    and p: "st5 = (if po_context_enabled inp then score_po_context cfg (arabidopsis_po_context inp) st4 else st4)"
    and sy: "compute_synergy_bonuses ext cfg st5 = Inr st6"
    and t: "st = compute_total_scores st6"
    by (rule run_gene_stages)
  have 0: "raw init_state L_synergy = 0 \<and> capped init_state L_synergy = 0"
    by (simp add: init_state_def)
  have 1: "raw (score_go_evidence cfg (gene_annots inp) init_state) L_synergy = 0
         \<and> capped (score_go_evidence cfg (gene_annots inp) init_state) L_synergy = 0"
    using only_layer_other [OF go_step, where l' = L_synergy] 0 by simp
  have 2: "raw st2 L_synergy = 0 \<and> capped st2 L_synergy = 0"
    using only_layer_other [OF domain_step [OF d], where l' = L_synergy] 1 by simp
  have 3: "raw st3 L_synergy = 0 \<and> capped st3 L_synergy = 0"
    using only_layer_other [OF orthology_step [OF o], where l' = L_synergy] 2 by simp
  have 4: "raw st4 L_synergy = 0 \<and> capped st4 L_synergy = 0"
    using only_layer_other [OF keyword_stage [OF k], where l' = L_synergy] 3 by simp
  have z: "raw st5 L_synergy = 0 \<and> capped st5 L_synergy = 0"
    using only_layer_other [OF po_stage [OF p], where l' = L_synergy] 4 by simp
  note ss = synergy_step [OF sy]
  from ss t have ev: "evidence st = evidence st5" by simp
  show ?thesis
  proof (cases "synergy_rules cfg = []")
    case True
    with ss z t show ?thesis by simp
  next
    case False
    with ss t show ?thesis unfolding ev by simp
  qed
qed

text \<open>
  C4, as the code has it. At the end of a run that completes, the raw synergy score of the
  gene is the sum of the bonuses of the configured rules all of whose conditions evaluate to
  true on the gene's evidence. The capped score is the minimum of that sum and
  \<^verbatim>\<open>synergy_max\<close> when at least one rule is configured (or the cap is not negative); with
  no rule the scorer returns before it stores anything. A condition whose name the source
  does not recognise evaluates to false without raising, so a rule that holds one does not
  fire. And the scorer returns whenever no condition of a rule raises.
\<close>

theorem synergy_bonus_capped_sum:
  "(run_gene ext cfg inp gene = Inr st
      \<longrightarrow> raw st L_synergy
            = sum_list (map (\<lambda>r. if rule_holds ext (evidence st) r then get_or (bonus r) 0 else 0)
                         (synergy_rules cfg)))
   \<and> (run_gene ext cfg inp gene = Inr st \<and> (synergy_rules cfg \<noteq> [] \<or> 0 \<le> cap_of cfg L_synergy)
      \<longrightarrow> capped st L_synergy = min (raw st L_synergy) (cap_of cfg L_synergy))
   \<and> (\<not> recognized_condition c \<longrightarrow> evaluate_condition ext ev c = Inr False)
   \<and> (\<not> recognized_condition c \<and> c \<in> set (get_or (if_all rule) []) \<longrightarrow> \<not> rule_holds ext ev rule)
   \<and> (list_all (\<lambda>r. list_all (\<lambda>c. \<exists>b. evaluate_condition ext (evidence s) c = Inr b)
                   (get_or (if_all r) [])) (synergy_rules cfg)
      \<longrightarrow> (\<exists>s'. compute_synergy_bonuses ext cfg s = Inr s'))"
proof (intro conjI impI)
  assume "run_gene ext cfg inp gene = Inr st"
  from run_synergy [OF this]
  show "raw st L_synergy
            = sum_list (map (\<lambda>r. if rule_holds ext (evidence st) r then get_or (bonus r) 0 else 0)
                         (synergy_rules cfg))" by simp
next
  assume a: "run_gene ext cfg inp gene = Inr st \<and> (synergy_rules cfg \<noteq> [] \<or> 0 \<le> cap_of cfg L_synergy)"
  then have run: "run_gene ext cfg inp gene = Inr st" by simp
  show "capped st L_synergy = min (raw st L_synergy) (cap_of cfg L_synergy)"
  proof (cases "synergy_rules cfg = []")
    case True
    with a have "0 \<le> cap_of cfg L_synergy" by simp
    with True run_synergy [OF run] show ?thesis by simp
  next
    case False
    with run_synergy [OF run] show ?thesis by simp
  qed
next
  assume "\<not> recognized_condition c"
  then show "evaluate_condition ext ev c = Inr False" by (rule unrecognized_condition_false)
next
  assume "\<not> recognized_condition c \<and> c \<in> set (get_or (if_all rule) [])"
  then show "\<not> rule_holds ext ev rule" using unrecognized_condition_blocks_rule by blast
next
  assume "list_all (\<lambda>r. list_all (\<lambda>c. \<exists>b. evaluate_condition ext (evidence s) c = Inr b)
                   (get_or (if_all r) [])) (synergy_rules cfg)"
  then show "\<exists>s'. compute_synergy_bonuses ext cfg s = Inr s'" by (rule synergy_total)
qed

lemma example_run_returns:
  "run_gene default_externals example_cfg example_inputs example_gene = Inr example_final_state"
proof (cases "run_gene default_externals example_cfg example_inputs example_gene")
  case (Inl e)
  with example_run show ?thesis by simp
next
  case (Inr st)
  then show ?thesis by (simp add: example_final_state_def)
qed

lemma example_final_scores:
  "map (raw example_final_state) all_layers = [3, 2, 3, 4, 1, 7]
   \<and> map (capped example_final_state) all_layers = [3, 2, 3, 4, 1, 6]
   \<and> total example_final_state = 19"
  using example_run unfolding example_run_returns by simp

theorem synergy_bonus_capped_sum_witness:
  "run_gene default_externals example_cfg example_inputs example_gene = Inr example_final_state
   \<and> synergy_rules example_cfg \<noteq> []
   \<and> raw example_final_state L_synergy
       = sum_list (map (\<lambda>r. if rule_holds default_externals (evidence example_final_state) r
                             then get_or (bonus r) 0 else 0) (synergy_rules example_cfg))
   \<and> capped example_final_state L_synergy
       = min (raw example_final_state L_synergy) (cap_of example_cfg L_synergy)
   \<and> capped example_final_state L_synergy = 6
   \<and> \<not> recognized_condition ''no_such_condition''
   \<and> evaluate_condition default_externals init_evidence ''no_such_condition'' = Inr False
   \<and> ''no_such_condition'' \<in> set (get_or (if_all example_unknown_rule) [])
   \<and> \<not> rule_holds default_externals init_evidence example_unknown_rule
   \<and> list_all (\<lambda>r. list_all (\<lambda>c. \<exists>b. evaluate_condition default_externals (evidence init_state) c = Inr b)
                   (get_or (if_all r) [])) (synergy_rules example_cfg)
   \<and> (\<exists>s'. compute_synergy_bonuses default_externals example_cfg init_state = Inr s')"
proof -
  have h1: "synergy_rules example_cfg \<noteq> []" by (simp add: example_cfg_def)
  have h2: "\<not> recognized_condition ''no_such_condition''"
    by (simp add: recognized_condition_def starts_with_def)
  have h3: "''no_such_condition'' \<in> set (get_or (if_all example_unknown_rule) [])"
    by (simp add: example_unknown_rule_def get_or_def)
  have h4: "list_all (\<lambda>r. list_all (\<lambda>c. \<exists>b. evaluate_condition default_externals (evidence init_state) c = Inr b)
                   (get_or (if_all r) [])) (synergy_rules example_cfg)"
    by (auto simp add: example_cfg_def get_or_def evaluate_condition_def starts_with_def split_on_def
        default_externals_def dec_int_def is_digit_def)
  have h5: "capped example_final_state L_synergy = 6"
    using example_final_scores by (simp add: all_layers_def)
  note t = synergy_bonus_capped_sum [of default_externals example_cfg example_inputs example_gene
      example_final_state "''no_such_condition''" init_evidence example_unknown_rule init_state]
  note c0 = t [THEN conjunct1, THEN mp, OF example_run_returns]
  note r = t [THEN conjunct2]
  note c1 = r [THEN conjunct1, THEN mp, OF conjI [OF example_run_returns disjI1 [OF h1]]]
  note c2 = r [THEN conjunct2, THEN conjunct1, THEN mp, OF h2]
  note c3 = r [THEN conjunct2, THEN conjunct2, THEN conjunct1, THEN mp, OF conjI [OF h2 h3]]
  note c4 = r [THEN conjunct2, THEN conjunct2, THEN conjunct2, THEN mp, OF h4]
  show ?thesis
    by (intro conjI example_run_returns h1 c0 c1 h5 h2 c2 h3 c3 h4 c4)
qed


text \<open>
  C4 as stated fails for a configuration without rules and with a negative cap: the scorer
  returns at once, the capped score stays 0, and the minimum of the empty sum and the cap
  is the cap, -1.
\<close>

theorem synergy_no_rules_negative_cap_counterexample:
  "(case run_gene default_externals
           (example_cfg\<lparr>synergy_rules := [],
                         score_caps := (score_caps example_cfg)\<lparr>synergy_max := Some (- 1)\<rparr>\<rparr>)
           (example_inputs\<lparr>domain_in := Domain_skipped, orthology_in := Orthology_disabled\<rparr>)
           example_gene of
      Inl e \<Rightarrow> None
    | Inr st \<Rightarrow>
        Some (capped st L_synergy,
              min (sum_list (map (\<lambda>r. if rule_holds default_externals (evidence st) r
                                        then get_or (bonus r) 0 else 0) []))
                  (cap_of (example_cfg\<lparr>synergy_rules := [],
                               score_caps := (score_caps example_cfg)\<lparr>synergy_max := Some (- 1)\<rparr>\<rparr>)
                          L_synergy)))
     = Some (0, - 1)"
  by (simp add: eval_defs Let_def)

text \<open>
  A \<^verbatim>\<open>tair_keyword_hits>=\<close> condition whose threshold \<^verbatim>\<open>int\<close> cannot read does not
  evaluate to false: it raises.
\<close>

lemma malformed_threshold_raises:
  "evaluate_condition default_externals ev ''tair_keyword_hits>=2.0'' = Inl ValueError"
  by (simp add: evaluate_condition_def starts_with_def split_on_def default_externals_def
      dec_int_def is_digit_def)

section \<open>C1: capped scores and the total\<close>

lemma nonneg_caps: "nonneg_config cfg \<Longrightarrow> 0 \<le> cap_of cfg l"
  by (cases l) (simp_all add: nonneg_config_def all_layers_def)

lemma nonneg_weight_in:
  assumes "nonneg_config cfg" and "(c, v) \<in> set (go_weights cfg)"
  shows "0 \<le> weight_in v t"
proof (cases v)
  case Not_a_dict
  then show ?thesis by (simp add: weight_in_def)
next
  case (Term_weights d)
  from assms Term_weights have all: "list_all (\<lambda>(t, w). 0 \<le> w) d"
    by (auto simp add: nonneg_config_def list_all_iff)
  show ?thesis
  proof (cases "map_of d t")
    case None
    with Term_weights show ?thesis by (simp add: weight_in_def)
  next
    case (Some w)
    then have "(t, w) \<in> set d" by (rule map_of_SomeD)
    with all have "0 \<le> w" by (auto simp add: list_all_iff)
    with Some Term_weights show ?thesis by (simp add: weight_in_def)
  qed
qed

lemma go_scan_nonneg:
  assumes "nonneg_config cfg"
  shows "0 \<le> fst (go_scan (go_weights cfg) annots)"
proof -
  obtain r ts cs where s: "go_scan (go_weights cfg) annots = (r, ts, cs)"
    by (metis prod_cases3)
  have inner: "0 \<le> sum_list (map (\<lambda>(c, v). weight_in v t) (go_weights cfg))" for t
    by (rule sum_list_nonneg) (auto simp add: nonneg_weight_in [OF assms])
  have "0 \<le> sum_list (map (\<lambda>t. sum_list (map (\<lambda>(c, v). weight_in v t) (go_weights cfg))) annots)"
    by (rule sum_list_nonneg) (auto simp add: inner)
  with go_scan_result [OF s] s show ?thesis by simp
qed

lemma orthology_raw_score_nonneg:
  "nonneg_config cfg \<Longrightarrow> 0 \<le> orthology_raw_score cfg info"
  by (auto simp add: orthology_raw_score_def nonneg_config_def intro!: add_nonneg_nonneg mult_nonneg_nonneg)

lemma synergy_sum_nonneg:
  "nonneg_config cfg \<Longrightarrow>
   0 \<le> sum_list (map (\<lambda>r. if rule_holds ext ev r then get_or (bonus r) 0 else 0) (synergy_rules cfg))"
  by (rule sum_list_nonneg) (auto simp add: nonneg_config_def list_all_iff)

lemma only_layer_inv:
  assumes "only_layer cfg l (\<lambda>r. 0 \<le> r) st st'"
    and "\<And>k. capped st k = min (raw st k) (cap_of cfg k) \<and> 0 \<le> raw st k"
  shows "capped st' k = min (raw st' k) (cap_of cfg k) \<and> 0 \<le> raw st' k"
  using assms unfolding only_layer_def by (cases "k = l") auto

lemma only_layer_capped:
  assumes "only_layer cfg l P st st'"
    and "\<And>k. capped st k = min (raw st k) (cap_of cfg k)"
  shows "capped st' k = min (raw st' k) (cap_of cfg k)"
  using assms unfolding only_layer_def by (cases "k = l") auto

lemma run_capped_is_min:
  assumes run: "run_gene ext cfg inp gene = Inr st"
    and caps: "list_all (\<lambda>l. 0 \<le> cap_of cfg l) all_layers"
  shows "capped st k = min (raw st k) (cap_of cfg k)"
proof -
  from run obtain st2 st3 st4 st5 st6 where
    d: "score_domain_evidence ext cfg (domain_in inp) gene
        (score_go_evidence cfg (gene_annots inp) init_state) = Inr st2"
    and o: "score_orthology_evidence ext cfg (arabidopsis_annotations inp) (orthology_in inp) gene st2 = Inr st3"
    and k: "st4 = (if arabidopsis_context_enabled inp
            then score_arabidopsis_keywords cfg (arabidopsis_annotations inp) st3 else st3)"
    and p: "st5 = (if po_context_enabled inp then score_po_context cfg (arabidopsis_po_context inp) st4 else st4)"
    and sy: "compute_synergy_bonuses ext cfg st5 = Inr st6"
    and t: "st = compute_total_scores st6"
    by (rule run_gene_stages)
  have c: "0 \<le> cap_of cfg j" for j
    using caps by (cases j) (simp_all add: all_layers_def)
  have i0: "capped init_state j = min (raw init_state j) (cap_of cfg j)" for j
    using c [of j] by (simp add: init_state_def)
  note i1 = only_layer_capped [OF go_step i0]
  note i2 = only_layer_capped [OF domain_step [OF d] i1]
  note i3 = only_layer_capped [OF orthology_step [OF o] i2]
  note i4 = only_layer_capped [OF keyword_stage [OF k] i3]
  note i5 = only_layer_capped [OF po_stage [OF p] i4]
  have s': "only_layer cfg L_synergy (\<lambda>r. True) st5 st6"
    using synergy_step [OF sy]
    unfolding only_layer_def by (cases "synergy_rules cfg = []") auto
  note i6 = only_layer_capped [OF s' i5]
  show ?thesis unfolding t using i6 [of k] by simp
qed

lemma run_raw_nonneg:
  assumes run: "run_gene ext cfg inp gene = Inr st" and nn: "nonneg_config cfg"
  shows "0 \<le> raw st l"
proof -
  from run obtain st2 st3 st4 st5 st6 where
    d: "score_domain_evidence ext cfg (domain_in inp) gene
        (score_go_evidence cfg (gene_annots inp) init_state) = Inr st2"
    and o: "score_orthology_evidence ext cfg (arabidopsis_annotations inp) (orthology_in inp) gene st2 = Inr st3"
    and k: "st4 = (if arabidopsis_context_enabled inp
            then score_arabidopsis_keywords cfg (arabidopsis_annotations inp) st3 else st3)"
    and p: "st5 = (if po_context_enabled inp then score_po_context cfg (arabidopsis_po_context inp) st4 else st4)"
    and sy: "compute_synergy_bonuses ext cfg st5 = Inr st6"
    and t: "st = compute_total_scores st6"
    by (rule run_gene_stages)
  have i0: "capped init_state k = min (raw init_state k) (cap_of cfg k) \<and> 0 \<le> raw init_state k" for k
    using nonneg_caps [OF nn, of k] by (simp add: init_state_def)
  have g: "only_layer cfg L_go (\<lambda>r. 0 \<le> r) init_state (score_go_evidence cfg (gene_annots inp) init_state)"
    by (rule only_layer_mono [OF go_step]) (simp add: go_scan_nonneg [OF nn])
  have i1: "capped (score_go_evidence cfg (gene_annots inp) init_state) k
              = min (raw (score_go_evidence cfg (gene_annots inp) init_state) k) (cap_of cfg k)
            \<and> 0 \<le> raw (score_go_evidence cfg (gene_annots inp) init_state) k" for k
    by (rule only_layer_inv [OF g i0])
  have d': "only_layer cfg L_domain (\<lambda>r. 0 \<le> r) (score_go_evidence cfg (gene_annots inp) init_state) st2"
    by (rule only_layer_mono [OF domain_step [OF d]]) (use nn in \<open>auto simp add: nonneg_config_def\<close>)
  have i2: "capped st2 k = min (raw st2 k) (cap_of cfg k) \<and> 0 \<le> raw st2 k" for k
    by (rule only_layer_inv [OF d' i1])
  have o': "only_layer cfg L_orthology (\<lambda>r. 0 \<le> r) st2 st3"
    by (rule only_layer_mono [OF orthology_step [OF o]]) (auto simp add: orthology_raw_score_nonneg [OF nn])
  have i3: "capped st3 k = min (raw st3 k) (cap_of cfg k) \<and> 0 \<le> raw st3 k" for k
    by (rule only_layer_inv [OF o' i2])
  have k': "only_layer cfg L_tair (\<lambda>r. 0 \<le> r) st3 st4"
    by (rule only_layer_mono [OF keyword_stage [OF k]]) (use nn in \<open>auto simp add: nonneg_config_def\<close>)
  have i4: "capped st4 k = min (raw st4 k) (cap_of cfg k) \<and> 0 \<le> raw st4 k" for k
    by (rule only_layer_inv [OF k' i3])
  have p': "only_layer cfg L_po (\<lambda>r. 0 \<le> r) st4 st5"
    by (rule only_layer_mono [OF po_stage [OF p]]) (use nn in \<open>auto simp add: nonneg_config_def\<close>)
  have i5: "capped st5 k = min (raw st5 k) (cap_of cfg k) \<and> 0 \<le> raw st5 k" for k
    by (rule only_layer_inv [OF p' i4])
  have s': "only_layer cfg L_synergy (\<lambda>r. 0 \<le> r) st5 st6"
    using synergy_step [OF sy] synergy_sum_nonneg [OF nn, of ext "evidence st5"]
    unfolding only_layer_def by (cases "synergy_rules cfg = []") auto
  have i6: "capped st6 k = min (raw st6 k) (cap_of cfg k) \<and> 0 \<le> raw st6 k" for k
    by (rule only_layer_inv [OF s' i5])
  from i6 [of l] show ?thesis unfolding t by simp
qed

lemma run_total:
  assumes "run_gene ext cfg inp gene = Inr st"
  shows "total st = capped st L_go + capped st L_domain + capped st L_orthology
                    + capped st L_tair + capped st L_po + capped st L_synergy"
proof -
  from assms obtain st6 where "st = compute_total_scores st6" by (rule run_gene_stages)
  then show ?thesis by (simp add: compute_total_scores_def all_layers_def)
qed

text \<open>
  C1, as the code has it. At the end of a run that completes, for every layer \<open>l\<close>: the
  total is the sum of the six capped scores; when no configured cap is negative the capped
  score is the minimum of the raw score and the cap of the layer (a layer that was skipped
  keeps raw and capped score 0), so it is at most the cap; and when no configured weight,
  bonus, multiplier, threshold or cap is negative the capped score is not negative.
\<close>

theorem capped_scores_and_total:
  assumes run: "run_gene ext cfg inp gene = Inr st"
  shows "total st = capped st L_go + capped st L_domain + capped st L_orthology
                    + capped st L_tair + capped st L_po + capped st L_synergy
       \<and> (list_all (\<lambda>l. 0 \<le> cap_of cfg l) all_layers
            \<longrightarrow> capped st l = min (raw st l) (cap_of cfg l) \<and> capped st l \<le> cap_of cfg l)
       \<and> (nonneg_config cfg \<longrightarrow> 0 \<le> capped st l)"
proof (intro conjI impI)
  show "total st = capped st L_go + capped st L_domain + capped st L_orthology
                    + capped st L_tair + capped st L_po + capped st L_synergy"
    using run by (rule run_total)
next
  assume caps: "list_all (\<lambda>l. 0 \<le> cap_of cfg l) all_layers"
  show "capped st l = min (raw st l) (cap_of cfg l)"
    using run caps by (rule run_capped_is_min)
  then show "capped st l \<le> cap_of cfg l" by simp
next
  assume nn: "nonneg_config cfg"
  then have caps: "list_all (\<lambda>l. 0 \<le> cap_of cfg l) all_layers" by (simp add: nonneg_config_def)
  from run_capped_is_min [OF run caps, of l] run_raw_nonneg [OF run nn, of l]
    nonneg_caps [OF nn, of l]
  show "0 \<le> capped st l" by simp
qed

theorem capped_scores_and_total_witness:
  "run_gene default_externals example_cfg example_inputs example_gene = Inr example_final_state
   \<and> list_all (\<lambda>l. 0 \<le> cap_of example_cfg l) all_layers
   \<and> nonneg_config example_cfg
   \<and> total example_final_state = 19
   \<and> capped example_final_state L_synergy
       = min (raw example_final_state L_synergy) (cap_of example_cfg L_synergy)
   \<and> capped example_final_state L_synergy \<le> cap_of example_cfg L_synergy
   \<and> 0 \<le> capped example_final_state L_synergy"
proof -
  have h1: "list_all (\<lambda>l. 0 \<le> cap_of example_cfg l) all_layers"
    by (simp add: all_layers_def example_cfg_def get_or_def)
  have h2: "nonneg_config example_cfg"
    by (simp add: nonneg_config_def all_layers_def example_cfg_def get_or_def)
  have h3: "total example_final_state = 19" using example_final_scores by simp
  note t = capped_scores_and_total [OF example_run_returns, of L_synergy]
  note c1 = t [THEN conjunct2, THEN conjunct1, THEN mp, OF h1]
  note c2 = t [THEN conjunct2, THEN conjunct2, THEN mp, OF h2]
  show ?thesis
    by (intro conjI example_run_returns h1 h2 h3 c1 [THEN conjunct1] c1 [THEN conjunct2] c2)
qed

text \<open>
  C1 as stated fails where the configuration holds a negative number. With the weight -2
  for the gene's GO term the capped GO score is -2; and with the cap -1 for the domain
  layer, which is skipped, the capped domain score is 0 and not the minimum of the raw
  score 0 and the cap.
\<close>

theorem negative_weight_or_cap_counterexample:
  "(case run_gene default_externals
           (example_cfg\<lparr>go_weights := [(''PCD'', Term_weights [(''GO:0012501'', - 2)])]\<rparr>)
           (example_inputs\<lparr>domain_in := Domain_skipped, orthology_in := Orthology_disabled\<rparr>)
           example_gene of
      Inl e \<Rightarrow> None | Inr st \<Rightarrow> Some (raw st L_go, capped st L_go)) = Some (- 2, - 2)
   \<and> (case run_gene default_externals
           (example_cfg\<lparr>score_caps := (score_caps example_cfg)\<lparr>domain_max := - 1\<rparr>\<rparr>)
           (example_inputs\<lparr>domain_in := Domain_skipped, orthology_in := Orthology_disabled\<rparr>)
           example_gene of
      Inl e \<Rightarrow> None
    | Inr st \<Rightarrow> Some (raw st L_domain, capped st L_domain,
                     min (raw st L_domain) (cap_of (example_cfg\<lparr>score_caps := (score_caps example_cfg)\<lparr>domain_max := - 1\<rparr>\<rparr>) L_domain)))
      = Some (0, 0, - 1)"
  by (simp add: eval_defs Let_def)

section \<open>The knee threshold: argmax, normalisation, window\<close>













lemma knee_threshold_example:
  "find_knee_threshold [10, 9, 8, 7, 6, 5, 4, 3, 2, 1] = Inr 9"
  by (simp add: find_knee_threshold_def sorted_desc_def normalize_def norm_denominator_def
      second_derivative_def np_gradient_def knee_start_def knee_end_def np_argmax_def upt_rec)

section \<open>C5: what the knee threshold is\<close>



section \<open>C10: the knee threshold always returns\<close>





section \<open>Further facts: the base genes and the second derivative\<close>

text \<open>
  The genes of the base list are exactly the genes with a row in the filtered GO table, each
  once and in sorted order, and every such row carries a term that some category lists.
\<close>

lemma listed_in_keys: "listed_in v t \<longleftrightarrow> t \<in> set (cat_keys v)"
  by (cases v) (auto simp add: listed_in_def cat_keys_def map_of_eq_None_iff)

lemma base_gene_has_rows:
  "gene \<in> set (extract_base_genes core_extract cfg go_df)
   \<longleftrightarrow> annots_of (go_annotations core_extract cfg go_df) gene \<noteq> []"
  by (force simp add: extract_base_genes_def sorted_set_def annots_of_def filter_empty_conv)

lemma base_genes_sorted_distinct:
  "distinct (extract_base_genes core_extract cfg go_df)
   \<and> sorted (extract_base_genes core_extract cfg go_df)"
  by (simp add: extract_base_genes_def sorted_set_def)

lemma base_rows_are_listed:
  assumes "t \<in> set (annots_of (go_annotations core_extract cfg go_df) gene)"
  shows "\<exists>c v. (c, v) \<in> set (go_weights cfg) \<and> listed_in v t"
proof -
  from assms have "t \<in> set (target_go_terms (go_weights cfg))"
    by (auto simp add: annots_of_def go_annotations_def Let_def split: option.splits if_splits)
  then show ?thesis
    by (auto simp add: target_go_terms_def listed_in_keys)
qed

text \<open>
  Away from the two ends, the second derivative the source computes (the gradient of the
  gradient) is the second difference over a distance of two positions, divided by four.
\<close>

lemma np_gradient_nth:
  assumes "np_gradient f = Inr g" and "0 < i" and "i + 1 < length f"
  shows "length g = length f \<and> g ! i = (f ! (i + 1) - f ! (i - 1)) / 2"
proof -
  from assms(3) have n: "\<not> length f < 2" by simp
  from assms(1) n have g: "g = map (\<lambda>i. if i = 0 then f ! 1 - f ! 0
                         else if i = length f - 1 then f ! (length f - 1) - f ! (length f - 2)
                         else (f ! (i + 1) - f ! (i - 1)) / 2) [0..<length f]"
    by (simp add: np_gradient_def Let_def)
  from assms(2,3) have "i < length f" "i \<noteq> 0" "i \<noteq> length f - 1" by arith+
  then show ?thesis unfolding g by simp
qed

lemma second_derivative_interior:
  assumes "second_derivative f = Inr g2" and "2 \<le> i" and "i + 2 < length f"
  shows "g2 ! i = (f ! (i + 2) - 2 * f ! i + f ! (i - 2)) / 4"
proof -
  from assms(1) obtain g where gr: "np_gradient f = Inr g" and gr2: "np_gradient g = Inr g2"
    by (auto simp add: second_derivative_def split: sum.splits)
  from assms(2,3) have i0: "0 < i" "i + 1 < length f" by arith+
  from np_gradient_nth [OF gr i0] have lg: "length g = length f" by simp
  from assms(2,3) have i1: "0 < i + 1" "i + 1 + 1 < length f" by arith+
  from np_gradient_nth [OF gr i1] have a: "g ! (i + 1) = (f ! (i + 2) - f ! i) / 2"
    by (simp add: numeral_2_eq_2)
  from assms(2,3) have i2: "0 < i - 1" "i - 1 + 1 < length f" and e: "i - 1 + 1 = i" "i - 1 - 1 = i - 2"
    by arith+
  from np_gradient_nth [OF gr i2] have b: "g ! (i - 1) = (f ! i - f ! (i - 2)) / 2"
    unfolding e by simp
  from i0 lg have "0 < i" "i + 1 < length g" by simp_all
  from np_gradient_nth [OF gr2 this] have "g2 ! i = (g ! (i + 1) - g ! (i - 1)) / 2" by simp
  with a b show ?thesis by (simp add: field_simps)
qed

end
